theory Spec2Isabelle
  imports Main "HOL-Library.Word"
begin

section \<open>Base types\<close>

text \<open>
  The module \<^verbatim>\<open>system.py\<close> holds the four system instructions of the Frontier EVM:
  \<^verbatim>\<open>create\<close>, \<^verbatim>\<open>return_\<close>, \<^verbatim>\<open>call\<close> and \<^verbatim>\<open>callcode\<close>. Everything they import (base
  types, stack, memory, gas meter, world state, interpreter) lives in other modules.

  \<^verbatim>\<open>U256\<close> is the 256-bit unsigned word, \<^verbatim>\<open>Uint\<close> the unbounded unsigned integer, an
  address a 160-bit value, \<^verbatim>\<open>bytes\<close> a list of 8-bit values.
\<close>

type_synonym u256 = "256 word"
type_synonym uint = nat
type_synonym byte = "8 word"
type_synonym bytes = "byte list"
type_synonym address = "160 word"

text \<open>The exceptions an instruction handler lets propagate.\<close>

datatype error = StackUnderflowError | OutOfGasError | ValueError | InterpreterError

definition bindE :: "error + 'a \<Rightarrow> ('a \<Rightarrow> error + 'b) \<Rightarrow> error + 'b" where
  "bindE m f = (case m of Inl e \<Rightarrow> Inl e | Inr x \<Rightarrow> f x)"

text \<open>
  Modelled from the spec: \<^verbatim>\<open>ethereum.base_types\<close> (the classes \<^verbatim>\<open>U256\<close> and \<^verbatim>\<open>Uint\<close>) is
  not among the sources. A \<^verbatim>\<open>U256\<close> is a fixed-width (256-bit) unsigned integer and its
  arithmetic is not wrap-around arithmetic: the constructor \<^verbatim>\<open>U256(n)\<close> and the sum
  \<^verbatim>\<open>a + b\<close> raise when the value does not fit, \<^verbatim>\<open>Uint(w)\<close> reads a word as an unbounded
  integer, and a \<^verbatim>\<open>Uint\<close> difference raises when it would be negative.
\<close>

definition U256 :: "nat \<Rightarrow> error + u256" where
  "U256 n = (if n < 2 ^ 256 then Inr (of_nat n) else Inl ValueError)"

definition u256_add :: "u256 \<Rightarrow> u256 \<Rightarrow> error + u256" where
  "u256_add a b = (if unat a + unat b < 2 ^ 256 then Inr (a + b) else Inl ValueError)"

definition Uint :: "u256 \<Rightarrow> uint" where
  "Uint w = unat w"

definition uint_sub :: "uint \<Rightarrow> uint \<Rightarrow> error + uint" where
  "uint_sub a b = (if a < b then Inl ValueError else Inr (a - b))"

text \<open>
  Modelled from the spec: \<^verbatim>\<open>utils.address.to_address\<close> and \<^verbatim>\<open>U256.from_be_bytes\<close> are
  not among the sources. An address is derived by truncating a word to its low 160
  bits; read back as a word, it is the same number.
\<close>

definition to_address :: "u256 \<Rightarrow> address" where
  "to_address w = ucast w"

definition U256_from_be_bytes :: "address \<Rightarrow> u256" where
  "U256_from_be_bytes a = ucast a"

section \<open>Stack, gas meter and memory\<close>

text \<open>
  Modelled from the spec: \<^verbatim>\<open>vm.stack\<close> is not among the sources. The stack is a LIFO of
  words (the head of the list is the top); \<^verbatim>\<open>pop\<close> fails with a stack underflow on an
  empty stack, \<^verbatim>\<open>push\<close> always succeeds at this layer.
\<close>

definition pop :: "u256 list \<Rightarrow> error + (u256 \<times> u256 list)" where
  "pop st = (case st of [] \<Rightarrow> Inl StackUnderflowError | x # xs \<Rightarrow> Inr (x, xs))"

definition push :: "u256 list \<Rightarrow> u256 \<Rightarrow> u256 list" where
  "push st v = v # st"

text \<open>
  Modelled from the spec: \<^verbatim>\<open>vm.gas.subtract_gas\<close> and the constant \<^verbatim>\<open>GAS_ZERO\<close> are not
  among the sources. \<^verbatim>\<open>subtract_gas(gas_left, amount)\<close> fails with out-of-gas when
  \<^verbatim>\<open>amount > gas_left\<close> and otherwise returns the difference; the base cost of RETURN
  is zero.
\<close>

definition subtract_gas :: "u256 \<Rightarrow> u256 \<Rightarrow> error + u256" where
  "subtract_gas gas_left amount =
     (if gas_left < amount then Inl OutOfGasError else Inr (gas_left - amount))"

definition GAS_ZERO :: u256 where
  "GAS_ZERO = 0"

text \<open>
  Modelled from the spec: \<^verbatim>\<open>vm.memory\<close> is not among the sources.
  \<^verbatim>\<open>extend_memory(memory, offset, size)\<close> grows the zero-filled buffer to cover
  \<^verbatim>\<open>[offset, offset+size)\<close>, rounded up to the word size of 32 bytes; it is a no-op when
  the region is already covered or \<^verbatim>\<open>size\<close> is zero, and it never shrinks.
  \<^verbatim>\<open>memory_read_bytes\<close> is the slice \<^verbatim>\<open>memory[start : start + size]\<close> and \<^verbatim>\<open>memory_write\<close>
  the slice assignment \<^verbatim>\<open>memory[start : start + len(value)] = value\<close>.
\<close>

definition ceil32 :: "nat \<Rightarrow> nat" where
  "ceil32 n = ((n + 31) div 32) * 32"

definition extend_memory :: "bytes \<Rightarrow> uint \<Rightarrow> u256 \<Rightarrow> bytes" where
  "extend_memory mem start_position sz =
     (if sz = 0 then mem
      else if ceil32 (start_position + unat sz) \<le> length mem then mem
      else mem @ replicate (ceil32 (start_position + unat sz) - length mem) 0)"

definition memory_read_bytes :: "bytes \<Rightarrow> uint \<Rightarrow> u256 \<Rightarrow> bytes" where
  "memory_read_bytes mem start_position sz = take (unat sz) (drop start_position mem)"

definition memory_write :: "bytes \<Rightarrow> uint \<Rightarrow> bytes \<Rightarrow> bytes" where
  "memory_write mem start_position v =
     take start_position mem @ v @ drop (start_position + length v) mem"

section \<open>World state, messages and frames\<close>

text \<open>
  Modelled from the spec: \<^verbatim>\<open>state\<close> is not among the sources. The world state maps
  an address to an account (nonce, balance, code); \<^verbatim>\<open>get_account\<close> is total, an unknown
  address yields the zero-valued account; \<^verbatim>\<open>increment_nonce\<close> adds one to the nonce of
  the account at the address.
\<close>

record account =
  nonce :: uint
  balance :: u256
  code :: bytes

type_synonym state = "address \<Rightarrow> account option"

definition EMPTY_ACCOUNT :: account where
  "EMPTY_ACCOUNT = \<lparr>nonce = 0, balance = 0, code = []\<rparr>"

definition get_account :: "state \<Rightarrow> address \<Rightarrow> account" where
  "get_account st a = (case st a of None \<Rightarrow> EMPTY_ACCOUNT | Some acc \<Rightarrow> acc)"

definition increment_nonce :: "state \<Rightarrow> address \<Rightarrow> state" where
  "increment_nonce st a =
     st(a \<mapsto> (get_account st a)\<lparr>nonce := nonce (get_account st a) + 1\<rparr>)"

text \<open>
  Modelled from the spec: the classes \<^verbatim>\<open>Environment\<close>, \<^verbatim>\<open>Message\<close> and \<^verbatim>\<open>Evm\<close> of the
  package \<^verbatim>\<open>vm\<close> are not among the sources. The records carry the fields of the data
  model. The environment is shared by every frame of a call tree and mutated in
  place; here a frame holds its current value and a sub-call returns the new one.
  The empty target \<^verbatim>\<open>b""\<close> of a creation message is \<open>None\<close>.
\<close>

record environment =
  origin :: address
  state :: state

record message =
  caller :: address
  target :: "address option"
  gas :: u256
  "value" :: u256
  data :: bytes
  code :: bytes
  current_target :: address
  depth :: uint

record evm =
  pc :: uint
  stack :: "u256 list"
  memory :: bytes
  gas_left :: u256
  env :: environment
  running :: bool
  message :: message
  "output" :: bytes

text \<open>
  The gas-cost table, the depth limit of the interpreter and the address derivation
  are collaborators of this module; the handlers take them as a parameter. A cost
  function may raise (out of gas, or a sum that does not fit a word).
\<close>

record config =
  GAS_CREATE :: u256
  STACK_DEPTH_LIMIT :: uint
  calculate_gas_extend_memory :: "bytes \<Rightarrow> uint \<Rightarrow> u256 \<Rightarrow> error + u256"
  calculate_call_gas_cost :: "state \<Rightarrow> u256 \<Rightarrow> address \<Rightarrow> u256 \<Rightarrow> error + u256"
  calculate_message_call_gas_stipend :: "u256 \<Rightarrow> u256"
  compute_contract_address :: "address \<Rightarrow> uint \<Rightarrow> address"

text \<open>
  The interpreter (\<^verbatim>\<open>process_message\<close>, \<^verbatim>\<open>process_create_message\<close>) takes a message
  and the environment and returns the terminal child frame, together with the
  environment as the sub-call left it, or lets a fatal condition propagate.
\<close>

type_synonym interpreter = "message \<Rightarrow> environment \<Rightarrow> error + (evm \<times> environment)"

text \<open>
  A handler runs up to its recursive call, if it makes one: it either returns
  (\<open>Done\<close>, the frame as the handler leaves it), or it stands at the call
  (\<open>Invoke\<close>: the frame at that moment, the child message, and the rest of the
  handler, which merges the child frame and the environment into the parent).
\<close>

datatype progress =
  Done evm
| Invoke evm message "evm \<times> environment \<Rightarrow> error + evm"

definition resume :: "interpreter \<Rightarrow> progress \<Rightarrow> error + evm" where
  "resume process p =
     (case p of
        Done e \<Rightarrow> Inr e
      | Invoke e child_message rest \<Rightarrow> bindE (process child_message (env e)) rest)"

section \<open>The system instructions\<close>

subsection \<open>CREATE\<close>

definition create_steps :: "config \<Rightarrow> evm \<Rightarrow> error + progress" where
  "create_steps G evm =
     bindE (pop (stack evm)) (\<lambda>(endowment, s1).
     bindE (pop s1) (\<lambda>(w2, s2).
     let memory_start_position = Uint w2 in
     bindE (pop s2) (\<lambda>(memory_size, s3).
     bindE (calculate_gas_extend_memory G (memory evm) memory_start_position memory_size)
       (\<lambda>extend_cost.
     bindE (u256_add (GAS_CREATE G) extend_cost) (\<lambda>gas_cost.
     bindE (subtract_gas (gas_left evm) gas_cost) (\<lambda>g1.
     let m1 = extend_memory (memory evm) memory_start_position memory_size;
         sender_address = origin (env evm);
         sender = get_account (state (env evm)) sender_address;
         evm1 = evm\<lparr>stack := s3, memory := m1, gas_left := g1\<rparr>
     in
     if balance sender < endowment then
       Inr (Done (evm1\<lparr>stack := push s3 0\<rparr>))
     else if depth (message evm) + 1 > STACK_DEPTH_LIMIT G then
       Inr (Done (evm1\<lparr>stack := push s3 0\<rparr>))
     else
       let call_data = memory_read_bytes m1 memory_start_position memory_size;
           st1 = increment_nonce (state (env evm)) (current_target (message evm))
       in
       bindE (uint_sub (nonce (get_account st1 (current_target (message evm)))) 1)
         (\<lambda>creator_nonce.
       let contract_address =
             compute_contract_address G (current_target (message evm)) creator_nonce;
           gas_left' = g1
       in
       bindE (subtract_gas g1 gas_left') (\<lambda>g2.
       let child_message =
             \<lparr>caller = current_target (message evm),
              target = None,
              gas = gas_left',
              value = endowment,
              data = [],
              code = call_data,
              current_target = contract_address,
              depth = depth (message evm) + 1\<rparr>;
           evm2 = evm1\<lparr>gas_left := g2, env := (env evm)\<lparr>state := st1\<rparr>\<rparr>
       in
       Inr (Invoke evm2 child_message (\<lambda>(child_evm, env').
         Inr (evm2\<lparr>stack := push s3 (U256_from_be_bytes (current_target (message child_evm))),
                   gas_left := gas_left child_evm,
                   env := env'\<rparr>)))))))))))"

definition create :: "config \<Rightarrow> interpreter \<Rightarrow> evm \<Rightarrow> error + evm" where
  "create G process_create_message evm =
     bindE (create_steps G evm) (resume process_create_message)"

subsection \<open>RETURN\<close>

text \<open>The handler \<^verbatim>\<open>return_\<close> of the source.\<close>

definition return_op :: "config \<Rightarrow> evm \<Rightarrow> error + evm" where
  "return_op G evm =
     bindE (pop (stack evm)) (\<lambda>(w1, s1).
     let memory_start_position = Uint w1 in
     bindE (pop s1) (\<lambda>(memory_size, s2).
     bindE (calculate_gas_extend_memory G (memory evm) memory_start_position memory_size)
       (\<lambda>extend_cost.
     bindE (u256_add GAS_ZERO extend_cost) (\<lambda>gas_cost.
     bindE (subtract_gas (gas_left evm) gas_cost) (\<lambda>g1.
     let m1 = extend_memory (memory evm) memory_start_position memory_size in
     Inr (evm\<lparr>stack := s2,
              memory := m1,
              gas_left := g1,
              output := memory_read_bytes m1 memory_start_position memory_size,
              running := False\<rparr>))))))"

subsection \<open>CALL\<close>

definition call_steps :: "config \<Rightarrow> evm \<Rightarrow> error + progress" where
  "call_steps G evm =
     bindE (pop (stack evm)) (\<lambda>(gas, s1).
     bindE (pop s1) (\<lambda>(w2, s2).
     let to = to_address w2 in
     bindE (pop s2) (\<lambda>(value, s3).
     bindE (pop s3) (\<lambda>(w4, s4).
     let memory_input_start_position = Uint w4 in
     bindE (pop s4) (\<lambda>(memory_input_size, s5).
     bindE (pop s5) (\<lambda>(w6, s6).
     let memory_output_start_position = Uint w6 in
     bindE (pop s6) (\<lambda>(memory_output_size, s7).
     bindE (calculate_call_gas_cost G (state (env evm)) gas to value) (\<lambda>call_gas_fee.
     bindE (u256_add gas (calculate_message_call_gas_stipend G value))
       (\<lambda>message_call_gas_fee.
     bindE (subtract_gas (gas_left evm) call_gas_fee) (\<lambda>g1.
     bindE (calculate_gas_extend_memory G (memory evm)
              memory_input_start_position memory_input_size) (\<lambda>gas_input_memory.
     bindE (subtract_gas g1 gas_input_memory) (\<lambda>g2.
     let m1 = extend_memory (memory evm) memory_input_start_position memory_input_size in
     bindE (calculate_gas_extend_memory G m1
              memory_output_start_position memory_output_size) (\<lambda>gas_output_memory.
     bindE (subtract_gas g2 gas_output_memory) (\<lambda>g3.
     let m2 = extend_memory m1 memory_output_start_position memory_output_size;
         call_data = memory_read_bytes m2 memory_input_start_position memory_input_size;
         sender_balance =
           balance (get_account (state (env evm)) (current_target (message evm)));
         evm1 = evm\<lparr>stack := s7, memory := m2, gas_left := g3\<rparr>
     in
     if sender_balance < value then
       bindE (u256_add g3 message_call_gas_fee) (\<lambda>g4.
       Inr (Done (evm1\<lparr>stack := push s7 0, gas_left := g4\<rparr>)))
     else if depth (message evm) + 1 > STACK_DEPTH_LIMIT G then
       bindE (u256_add g3 message_call_gas_fee) (\<lambda>g4.
       Inr (Done (evm1\<lparr>stack := push s7 0, gas_left := g4\<rparr>)))
     else
       let code = account.code (get_account (state (env evm)) to);
           child_message =
             \<lparr>caller = current_target (message evm),
              target = Some to,
              gas = message_call_gas_fee,
              value = value,
              data = call_data,
              code = code,
              current_target = to,
              depth = depth (message evm) + 1\<rparr>
       in
       Inr (Invoke evm1 child_message (\<lambda>(child_evm, env').
         bindE (U256 (length (output child_evm))) (\<lambda>output_length.
         let actual_output_size = min memory_output_size output_length;
             m3 = memory_write m2 memory_output_start_position
                    (take (unat actual_output_size) (output child_evm))
         in
         bindE (u256_add g3 (gas_left child_evm)) (\<lambda>g4.
         Inr (evm1\<lparr>stack := push s7 1,
                   memory := m3,
                   gas_left := g4,
                   env := env'\<rparr>)))))))))))))))))))"

definition call :: "config \<Rightarrow> interpreter \<Rightarrow> evm \<Rightarrow> error + evm" where
  "call G process_message evm = bindE (call_steps G evm) (resume process_message)"

subsection \<open>CALLCODE\<close>

definition callcode_steps :: "config \<Rightarrow> evm \<Rightarrow> error + progress" where
  "callcode_steps G evm =
     bindE (pop (stack evm)) (\<lambda>(gas, s1).
     bindE (pop s1) (\<lambda>(w2, s2).
     let code_address = to_address w2 in
     bindE (pop s2) (\<lambda>(value, s3).
     bindE (pop s3) (\<lambda>(w4, s4).
     let memory_input_start_position = Uint w4 in
     bindE (pop s4) (\<lambda>(memory_input_size, s5).
     bindE (pop s5) (\<lambda>(w6, s6).
     let memory_output_start_position = Uint w6 in
     bindE (pop s6) (\<lambda>(memory_output_size, s7).
     let to = current_target (message evm) in
     bindE (calculate_call_gas_cost G (state (env evm)) gas to value) (\<lambda>call_gas_fee.
     bindE (u256_add gas (calculate_message_call_gas_stipend G value))
       (\<lambda>message_call_gas_fee.
     bindE (subtract_gas (gas_left evm) call_gas_fee) (\<lambda>g1.
     bindE (calculate_gas_extend_memory G (memory evm)
              memory_input_start_position memory_input_size) (\<lambda>gas_input_memory.
     bindE (subtract_gas g1 gas_input_memory) (\<lambda>g2.
     let m1 = extend_memory (memory evm) memory_input_start_position memory_input_size in
     bindE (calculate_gas_extend_memory G m1
              memory_output_start_position memory_output_size) (\<lambda>gas_output_memory.
     bindE (subtract_gas g2 gas_output_memory) (\<lambda>g3.
     let m2 = extend_memory m1 memory_output_start_position memory_output_size;
         call_data = memory_read_bytes m2 memory_input_start_position memory_input_size;
         sender_balance =
           balance (get_account (state (env evm)) (current_target (message evm)));
         evm1 = evm\<lparr>stack := s7, memory := m2, gas_left := g3\<rparr>
     in
     if sender_balance < value then
       bindE (u256_add g3 message_call_gas_fee) (\<lambda>g4.
       Inr (Done (evm1\<lparr>stack := push s7 0, gas_left := g4\<rparr>)))
     else if depth (message evm) + 1 > STACK_DEPTH_LIMIT G then
       bindE (u256_add g3 message_call_gas_fee) (\<lambda>g4.
       Inr (Done (evm1\<lparr>stack := push s7 0, gas_left := g4\<rparr>)))
     else
       let code = account.code (get_account (state (env evm)) code_address);
           child_message =
             \<lparr>caller = current_target (message evm),
              target = Some to,
              gas = message_call_gas_fee,
              value = value,
              data = call_data,
              code = code,
              current_target = to,
              depth = depth (message evm) + 1\<rparr>
       in
       Inr (Invoke evm1 child_message (\<lambda>(child_evm, env').
         bindE (U256 (length (output child_evm))) (\<lambda>output_length.
         let actual_output_size = min memory_output_size output_length;
             m3 = memory_write m2 memory_output_start_position
                    (take (unat actual_output_size) (output child_evm))
         in
         bindE (u256_add g3 (gas_left child_evm)) (\<lambda>g4.
         Inr (evm1\<lparr>stack := push s7 1,
                   memory := m3,
                   gas_left := g4,
                   env := env'\<rparr>)))))))))))))))))))"

definition callcode :: "config \<Rightarrow> interpreter \<Rightarrow> evm \<Rightarrow> error + evm" where
  "callcode G process_message evm = bindE (callcode_steps G evm) (resume process_message)"

text \<open>
  CALLCODE as the specification words it: the steps of CALL (pop order, gas
  accounting, memory handling, balance and depth checks, result merging, the code
  fetched from the popped address), with one difference, the child message's target
  and current target are the parent's own current account.
\<close>

definition callcode_spec :: "config \<Rightarrow> interpreter \<Rightarrow> evm \<Rightarrow> error + evm" where
  "callcode_spec G process_message evm =
     call G
       (\<lambda>m. process_message
          (m\<lparr>target := Some (current_target (message evm)),
             current_target := current_target (message evm)\<rparr>))
       evm"

section \<open>The initial charges of a handler\<close>

text \<open>
  The amounts a message call computes before anything is charged: the cost of the
  call, the gas handed to the child (the popped gas plus the stipend), and the two
  memory-extension fees, that of the output region for the memory as the input
  region has extended it.
\<close>

record charges =
  call_gas_fee :: u256
  message_call_gas_fee :: u256
  gas_input_memory :: u256
  gas_output_memory :: u256

text \<open>
  The gas charges of CALL and CALLCODE succeed with the amounts \<open>c\<close>: no cost
  function raises, the gas for the child fits a word, and the frame's gas covers
  the three charges. \<open>to\<close> is the account the cost of the call is computed for.
\<close>

definition charged ::
  "config \<Rightarrow> evm \<Rightarrow> address \<Rightarrow> u256 \<Rightarrow> u256 \<Rightarrow> u256 \<Rightarrow> u256 \<Rightarrow> u256 \<Rightarrow> u256 \<Rightarrow> charges \<Rightarrow> bool"
where
  "charged G evm to gas_w value_w w_in memory_input_size w_out memory_output_size c \<longleftrightarrow>
     calculate_call_gas_cost G (state (env evm)) gas_w to value_w = Inr (call_gas_fee c) \<and>
     u256_add gas_w (calculate_message_call_gas_stipend G value_w)
       = Inr (message_call_gas_fee c) \<and>
     calculate_gas_extend_memory G (memory evm) (Uint w_in) memory_input_size
       = Inr (gas_input_memory c) \<and>
     calculate_gas_extend_memory G
         (extend_memory (memory evm) (Uint w_in) memory_input_size)
         (Uint w_out) memory_output_size
       = Inr (gas_output_memory c) \<and>
     unat (call_gas_fee c) + unat (gas_input_memory c) + unat (gas_output_memory c)
       \<le> unat (gas_left evm)"

text \<open>The frame's gas and memory right after these charges and extensions.\<close>

definition charged_gas :: "evm \<Rightarrow> charges \<Rightarrow> u256" where
  "charged_gas evm c =
     gas_left evm - call_gas_fee c - gas_input_memory c - gas_output_memory c"

definition extended_memory :: "evm \<Rightarrow> u256 \<Rightarrow> u256 \<Rightarrow> u256 \<Rightarrow> u256 \<Rightarrow> bytes" where
  "extended_memory evm w_in memory_input_size w_out memory_output_size =
     extend_memory (extend_memory (memory evm) (Uint w_in) memory_input_size)
       (Uint w_out) memory_output_size"

text \<open>
  The gas charge of CREATE succeeds: the memory cost function returns
  \<open>extend_cost\<close> and the frame's gas covers the creation cost plus it.
\<close>

definition create_charged :: "config \<Rightarrow> evm \<Rightarrow> u256 \<Rightarrow> u256 \<Rightarrow> u256 \<Rightarrow> bool" where
  "create_charged G evm w_start memory_size extend_cost \<longleftrightarrow>
     calculate_gas_extend_memory G (memory evm) (Uint w_start) memory_size
       = Inr extend_cost \<and>
     unat (GAS_CREATE G) + unat extend_cost \<le> unat (gas_left evm)"

section \<open>Concrete collaborators and frames\<close>

text \<open>
  A gas-cost table of Frontier's shape, for evaluating the handlers on concrete
  frames: memory costs 3 per new word, a call costs 40 plus the forwarded gas, plus
  25000 when the target account does not exist and 9000 when value is transferred;
  the stipend is 2300 when value is transferred. The address derivation stands for
  the hash of creator and nonce.
\<close>

definition sample_config :: config where
  "sample_config =
     \<lparr>GAS_CREATE = 32000,
      STACK_DEPTH_LIMIT = 1024,
      calculate_gas_extend_memory =
        (\<lambda>mem start_position sz.
           if sz = 0 then Inr 0
           else U256 (3 * ((ceil32 (start_position + unat sz) - length mem) div 32))),
      calculate_call_gas_cost =
        (\<lambda>st gas to value.
           U256 (40 + unat gas + (if st to = None then 25000 else 0)
                 + (if value = 0 then 0 else 9000))),
      calculate_message_call_gas_stipend = (\<lambda>value. if value = 0 then 0 else 2300),
      compute_contract_address = (\<lambda>creator creator_nonce. 1000 * creator + of_nat creator_nonce)\<rparr>"

text \<open>
  Two interpreters: one returns at once a terminal frame that holds three bytes of
  output and all but 100 of the gas it was given; the other lets a fatal condition
  propagate.
\<close>

definition returning_interpreter :: interpreter where
  "returning_interpreter m e =
     Inr (\<lparr>pc = 0, stack = [], memory = [], gas_left = gas m - 100, env = e,
           running = False, message = m, output = [170, 187, 204]\<rparr>, e)"

definition raising_interpreter :: interpreter where
  "raising_interpreter m e = Inl InterpreterError"

text \<open>
  A world of three accounts. Account 1 originates the transaction, the frame runs
  as account 2, which holds less than the originator; account 3 is rich.
\<close>

definition sample_state :: state where
  "sample_state =
     [1 \<mapsto> \<lparr>nonce = 4, balance = 30, code = []\<rparr>,
      2 \<mapsto> \<lparr>nonce = 7, balance = 5, code = []\<rparr>,
      3 \<mapsto> \<lparr>nonce = 0, balance = 1000, code = [96, 0]\<rparr>]"

definition sample_memory :: bytes where
  "sample_memory =
     [1, 2, 3, 4, 5, 6, 7, 8, 9, 10, 11, 12, 13, 14, 15, 16,
      17, 18, 19, 20, 21, 22, 23, 24, 25, 26, 27, 28, 29, 30, 31, 32]"

definition sample_message :: message where
  "sample_message =
     \<lparr>caller = 1, target = Some 2, gas = 100000, value = 0, data = [], code = [],
      current_target = 2, depth = 0\<rparr>"

definition sample_evm :: evm where
  "sample_evm =
     \<lparr>pc = 0, stack = [], memory = sample_memory, gas_left = 100000,
      env = \<lparr>origin = 1, state = sample_state\<rparr>, running = True,
      message = sample_message, output = []\<rparr>"

text \<open>The sample frame at a given call depth, with a given stack.\<close>

definition sample_frame :: "uint \<Rightarrow> u256 list \<Rightarrow> evm" where
  "sample_frame d s = sample_evm\<lparr>stack := s, message := sample_message\<lparr>depth := d\<rparr>\<rparr>"

section \<open>Basic facts\<close>

lemma bindE_Inr [simp]: "bindE (Inr x) f = f x"
  by (simp add: bindE_def)

lemma bindE_Inl [simp]: "bindE (Inl e) f = Inl e"
  by (simp add: bindE_def)

lemma pop_Cons [simp]: "pop (x # xs) = Inr (x, xs)"
  by (simp add: pop_def)

lemma pop_Nil [simp]: "pop [] = Inl StackUnderflowError"
  by (simp add: pop_def)

lemma subtract_gas_le: "amount \<le> g \<Longrightarrow> subtract_gas g amount = Inr (g - amount)"
  by (simp add: subtract_gas_def not_less [symmetric])

lemma subtract_gas_self [simp]: "subtract_gas g g = Inr 0"
  by (simp add: subtract_gas_def)

lemma subtract_gas_Inr:
  "subtract_gas g amount = Inr g' \<longleftrightarrow> amount \<le> g \<and> g' = g - amount"
  by (auto simp: subtract_gas_def)

lemma subtract_gas_unat:
  "subtract_gas g amount = Inr g' \<Longrightarrow> unat g' = unat g - unat amount \<and> unat amount \<le> unat g"
  by (auto simp: subtract_gas_Inr unat_sub word_le_nat_alt [symmetric])

lemma u256_add_zero [simp]: "u256_add GAS_ZERO c = Inr c"
  using unsigned_less [of c, where 'a = nat] by (simp add: u256_add_def GAS_ZERO_def)

lemma u256_add_Inr:
  "u256_add a b = Inr c \<longleftrightarrow> c = a + b \<and> unat c = unat a + unat b"
  using unat_add_lem [of a b] by (auto simp: u256_add_def)

lemma length_extend_memory: "length mem \<le> length (extend_memory mem start sz)"
  by (simp add: extend_memory_def)

lemma le_ceil32: "n \<le> ceil32 n"
  unfolding ceil32_def by presburger

lemma extend_memory_covers:
  "sz \<noteq> 0 \<Longrightarrow> start + unat sz \<le> length (extend_memory mem start sz)"
  using le_ceil32 [of "start + unat sz"] by (auto simp: extend_memory_def)

lemma extend_memory_prefix: "take (length mem) (extend_memory mem start sz) = mem"
  by (simp add: extend_memory_def)

lemma length_memory_read_bytes:
  "length (memory_read_bytes (extend_memory mem start sz) start sz) = unat sz"
proof (cases "sz = 0")
  case True then show ?thesis by (simp add: memory_read_bytes_def)
next
  case False
  from extend_memory_covers [OF this, of start mem] show ?thesis
    by (simp add: memory_read_bytes_def)
qed

lemma to_address_own [simp]: "to_address (U256_from_be_bytes a) = a"
  by (simp add: to_address_def U256_from_be_bytes_def ucast_up_ucast_id is_up)

lemma nonce_increment_nonce [simp]:
  "nonce (get_account (increment_nonce st a) a) = nonce (get_account st a) + 1"
  by (simp add: increment_nonce_def get_account_def)

lemma get_account_increment_nonce_other:
  "b \<noteq> a \<Longrightarrow> get_account (increment_nonce st a) b = get_account st b"
  by (simp add: increment_nonce_def get_account_def)

lemma uint_sub_Suc [simp]: "uint_sub (Suc n) (Suc 0) = Inr n"
  by (simp add: uint_sub_def)

lemma create_charge:
  assumes "create_charged G evm w_start memory_size extend_cost"
  shows "u256_add (GAS_CREATE G) extend_cost = Inr (GAS_CREATE G + extend_cost)"
    and "subtract_gas (gas_left evm) (GAS_CREATE G + extend_cost)
           = Inr (gas_left evm - (GAS_CREATE G + extend_cost))"
    and "unat (gas_left evm - (GAS_CREATE G + extend_cost))
           = unat (gas_left evm) - (unat (GAS_CREATE G) + unat extend_cost)"
proof -
  have le: "unat (GAS_CREATE G) + unat extend_cost \<le> unat (gas_left evm)"
    using assms by (simp add: create_charged_def)
  have "unat (gas_left evm) < 2 ^ 256"
    using unsigned_less [of "gas_left evm", where 'a = nat] by simp
  with le have fit: "unat (GAS_CREATE G) + unat extend_cost < 2 ^ 256"
    by linarith
  then have sum: "unat (GAS_CREATE G + extend_cost) = unat (GAS_CREATE G) + unat extend_cost"
    using unat_add_lem [of "GAS_CREATE G" extend_cost] by simp
  show "u256_add (GAS_CREATE G) extend_cost = Inr (GAS_CREATE G + extend_cost)"
    using fit by (simp add: u256_add_def)
  have le': "GAS_CREATE G + extend_cost \<le> gas_left evm"
    using le sum by (simp add: word_le_nat_alt)
  then show "subtract_gas (gas_left evm) (GAS_CREATE G + extend_cost)
           = Inr (gas_left evm - (GAS_CREATE G + extend_cost))"
    by (rule subtract_gas_le)
  show "unat (gas_left evm - (GAS_CREATE G + extend_cost))
           = unat (gas_left evm) - (unat (GAS_CREATE G) + unat extend_cost)"
    using le' sum by (simp add: unat_sub)
qed

lemma charged_chain:
  assumes "charged G evm to gas_w value_w w_in isz w_out osz c"
  shows "subtract_gas (gas_left evm) (call_gas_fee c) = Inr (gas_left evm - call_gas_fee c)"
    and "subtract_gas (gas_left evm - call_gas_fee c) (gas_input_memory c)
           = Inr (gas_left evm - call_gas_fee c - gas_input_memory c)"
    and "subtract_gas (gas_left evm - call_gas_fee c - gas_input_memory c) (gas_output_memory c)
           = Inr (charged_gas evm c)"
    and "unat (charged_gas evm c)
           = unat (gas_left evm)
             - (unat (call_gas_fee c) + unat (gas_input_memory c) + unat (gas_output_memory c))"
proof -
  have le: "unat (call_gas_fee c) + unat (gas_input_memory c) + unat (gas_output_memory c)
              \<le> unat (gas_left evm)"
    using assms by (simp add: charged_def)
  have 1: "call_gas_fee c \<le> gas_left evm"
    using le by (simp add: word_le_nat_alt)
  then have u1: "unat (gas_left evm - call_gas_fee c) = unat (gas_left evm) - unat (call_gas_fee c)"
    by (rule unat_sub)
  have 2: "gas_input_memory c \<le> gas_left evm - call_gas_fee c"
    using le u1 by (simp add: word_le_nat_alt)
  then have u2: "unat (gas_left evm - call_gas_fee c - gas_input_memory c)
                   = unat (gas_left evm) - unat (call_gas_fee c) - unat (gas_input_memory c)"
    using u1 by (simp add: unat_sub)
  have 3: "gas_output_memory c \<le> gas_left evm - call_gas_fee c - gas_input_memory c"
    using le u2 by (simp add: word_le_nat_alt)
  show "subtract_gas (gas_left evm) (call_gas_fee c) = Inr (gas_left evm - call_gas_fee c)"
    using 1 by (rule subtract_gas_le)
  show "subtract_gas (gas_left evm - call_gas_fee c) (gas_input_memory c)
           = Inr (gas_left evm - call_gas_fee c - gas_input_memory c)"
    using 2 by (rule subtract_gas_le)
  show "subtract_gas (gas_left evm - call_gas_fee c - gas_input_memory c) (gas_output_memory c)
           = Inr (charged_gas evm c)"
    using 3 by (simp add: subtract_gas_le charged_gas_def)
  show "unat (charged_gas evm c)
           = unat (gas_left evm)
             - (unat (call_gas_fee c) + unat (gas_input_memory c) + unat (gas_output_memory c))"
    using 3 u2 by (simp add: charged_gas_def unat_sub)
qed

lemma resume_Done [simp]: "resume p (Done e) = Inr e"
  by (simp add: resume_def)

lemma resume_Invoke [simp]: "resume p (Invoke e m k) = bindE (p m (env e)) k"
  by (simp add: resume_def)

lemma nth_memory_read_bytes:
  assumes "i < unat sz"
  shows "memory_read_bytes (extend_memory mem start sz) start sz ! i
           = extend_memory mem start sz ! (start + i)"
proof -
  from assms have "sz \<noteq> 0" by auto
  from extend_memory_covers [OF this, of start mem] assms show ?thesis
    by (simp add: memory_read_bytes_def)
qed

text \<open>
  The two predicates say exactly that the charges of the source succeed: the sum
  of the creation cost and the memory cost fits a word and \<open>subtract_gas\<close> returns,
  respectively the three calls of \<open>subtract_gas\<close> return one after the other.
\<close>

lemma create_charged_iff:
  "create_charged G evm w_start memory_size extend_cost \<longleftrightarrow>
     calculate_gas_extend_memory G (memory evm) (Uint w_start) memory_size = Inr extend_cost
     \<and> (\<exists>gas_cost g1. u256_add (GAS_CREATE G) extend_cost = Inr gas_cost
                      \<and> subtract_gas (gas_left evm) gas_cost = Inr g1)"
proof
  assume ch: "create_charged G evm w_start memory_size extend_cost"
  then show "calculate_gas_extend_memory G (memory evm) (Uint w_start) memory_size = Inr extend_cost
     \<and> (\<exists>gas_cost g1. u256_add (GAS_CREATE G) extend_cost = Inr gas_cost
                      \<and> subtract_gas (gas_left evm) gas_cost = Inr g1)"
    using create_charge(1,2) [OF ch] by (auto simp: create_charged_def)
next
  assume "calculate_gas_extend_memory G (memory evm) (Uint w_start) memory_size = Inr extend_cost
     \<and> (\<exists>gas_cost g1. u256_add (GAS_CREATE G) extend_cost = Inr gas_cost
                      \<and> subtract_gas (gas_left evm) gas_cost = Inr g1)"
  then show "create_charged G evm w_start memory_size extend_cost"
    by (auto simp: create_charged_def u256_add_Inr subtract_gas_Inr word_le_nat_alt)
qed

lemma charged_iff:
  "charged G evm to gas_w value_w w_in isz w_out osz c \<longleftrightarrow>
     calculate_call_gas_cost G (state (env evm)) gas_w to value_w = Inr (call_gas_fee c)
     \<and> u256_add gas_w (calculate_message_call_gas_stipend G value_w)
         = Inr (message_call_gas_fee c)
     \<and> calculate_gas_extend_memory G (memory evm) (Uint w_in) isz = Inr (gas_input_memory c)
     \<and> calculate_gas_extend_memory G (extend_memory (memory evm) (Uint w_in) isz)
           (Uint w_out) osz = Inr (gas_output_memory c)
     \<and> (\<exists>g1 g2 g3. subtract_gas (gas_left evm) (call_gas_fee c) = Inr g1
                   \<and> subtract_gas g1 (gas_input_memory c) = Inr g2
                   \<and> subtract_gas g2 (gas_output_memory c) = Inr g3)"
proof
  assume ch: "charged G evm to gas_w value_w w_in isz w_out osz c"
  from charged_chain(1-3) [OF ch] ch
  show "calculate_call_gas_cost G (state (env evm)) gas_w to value_w = Inr (call_gas_fee c)
     \<and> u256_add gas_w (calculate_message_call_gas_stipend G value_w)
         = Inr (message_call_gas_fee c)
     \<and> calculate_gas_extend_memory G (memory evm) (Uint w_in) isz = Inr (gas_input_memory c)
     \<and> calculate_gas_extend_memory G (extend_memory (memory evm) (Uint w_in) isz)
           (Uint w_out) osz = Inr (gas_output_memory c)
     \<and> (\<exists>g1 g2 g3. subtract_gas (gas_left evm) (call_gas_fee c) = Inr g1
                   \<and> subtract_gas g1 (gas_input_memory c) = Inr g2
                   \<and> subtract_gas g2 (gas_output_memory c) = Inr g3)"
    by (simp add: charged_def)
next
  assume r: "calculate_call_gas_cost G (state (env evm)) gas_w to value_w = Inr (call_gas_fee c)
     \<and> u256_add gas_w (calculate_message_call_gas_stipend G value_w)
         = Inr (message_call_gas_fee c)
     \<and> calculate_gas_extend_memory G (memory evm) (Uint w_in) isz = Inr (gas_input_memory c)
     \<and> calculate_gas_extend_memory G (extend_memory (memory evm) (Uint w_in) isz)
           (Uint w_out) osz = Inr (gas_output_memory c)
     \<and> (\<exists>g1 g2 g3. subtract_gas (gas_left evm) (call_gas_fee c) = Inr g1
                   \<and> subtract_gas g1 (gas_input_memory c) = Inr g2
                   \<and> subtract_gas g2 (gas_output_memory c) = Inr g3)"
  then obtain g1 g2 g3 where 1: "subtract_gas (gas_left evm) (call_gas_fee c) = Inr g1"
    and 2: "subtract_gas g1 (gas_input_memory c) = Inr g2"
    and 3: "subtract_gas g2 (gas_output_memory c) = Inr g3"
    by blast
  from subtract_gas_unat [OF 1] subtract_gas_unat [OF 2] subtract_gas_unat [OF 3]
  have "unat (call_gas_fee c) + unat (gas_input_memory c) + unat (gas_output_memory c)
          \<le> unat (gas_left evm)"
    by linarith
  with r show "charged G evm to gas_w value_w w_in isz w_out osz c"
    by (simp add: charged_def)
qed

section \<open>The two ways out of a handler\<close>

text \<open>
  Once the pops and the gas charges have succeeded, CREATE, CALL and CALLCODE either
  return on their own (insufficient balance, depth limit) or stand at the recursive
  call with the child message built.
\<close>

lemma create_steps_fail:
  assumes st: "stack evm = endowment # w_start # memory_size # rest"
    and ch: "create_charged G evm w_start memory_size extend_cost"
    and fail: "balance (get_account (state (env evm)) (origin (env evm))) < endowment
               \<or> STACK_DEPTH_LIMIT G < depth (message evm) + 1"
  shows "create_steps G evm =
           Inr (Done (evm\<lparr>stack := 0 # rest,
                         memory := extend_memory (memory evm) (Uint w_start) memory_size,
                         gas_left := gas_left evm - (GAS_CREATE G + extend_cost)\<rparr>))"
proof -
  have cost: "calculate_gas_extend_memory G (memory evm) (Uint w_start) memory_size
                = Inr extend_cost"
    using ch by (simp add: create_charged_def)
  show ?thesis
    unfolding create_steps_def
    using fail by (auto simp: st cost create_charge [OF ch] Let_def push_def)
qed

lemma create_steps_invoke:
  assumes st: "stack evm = endowment # w_start # memory_size # rest"
    and ch: "create_charged G evm w_start memory_size extend_cost"
    and bal: "\<not> balance (get_account (state (env evm)) (origin (env evm))) < endowment"
    and dep: "depth (message evm) + 1 \<le> STACK_DEPTH_LIMIT G"
  shows "\<exists>k. create_steps G evm =
           Inr (Invoke
                 (evm\<lparr>stack := rest,
                      memory := extend_memory (memory evm) (Uint w_start) memory_size,
                      gas_left := 0,
                      env := (env evm)\<lparr>state :=
                        increment_nonce (state (env evm)) (current_target (message evm))\<rparr>\<rparr>)
                 \<lparr>caller = current_target (message evm),
                  target = None,
                  gas = gas_left evm - (GAS_CREATE G + extend_cost),
                  value = endowment,
                  data = [],
                  code = memory_read_bytes
                           (extend_memory (memory evm) (Uint w_start) memory_size)
                           (Uint w_start) memory_size,
                  current_target =
                    compute_contract_address G (current_target (message evm))
                      (nonce (get_account (state (env evm)) (current_target (message evm)))),
                  depth = depth (message evm) + 1\<rparr>
                 k)
         \<and> (\<forall>child_evm env'.
               k (child_evm, env') =
                 Inr (evm\<lparr>stack := U256_from_be_bytes (current_target (message child_evm)) # rest,
                          memory := extend_memory (memory evm) (Uint w_start) memory_size,
                          gas_left := gas_left child_evm,
                          env := env'\<rparr>))"
proof -
  have cost: "calculate_gas_extend_memory G (memory evm) (Uint w_start) memory_size
                = Inr extend_cost"
    using ch by (simp add: create_charged_def)
  show ?thesis
    unfolding create_steps_def
    using bal dep by (simp add: st cost create_charge [OF ch] Let_def push_def)
qed

lemma call_steps_fail:
  assumes st: "stack evm = gas_w # to_w # value_w # w_in # isz # w_out # osz # rest"
    and ch: "charged G evm (to_address to_w) gas_w value_w w_in isz w_out osz c"
    and fail: "balance (get_account (state (env evm)) (current_target (message evm))) < value_w
               \<or> STACK_DEPTH_LIMIT G < depth (message evm) + 1"
    and refund: "u256_add (charged_gas evm c) (message_call_gas_fee c) = Inr g4"
  shows "call_steps G evm =
           Inr (Done (evm\<lparr>stack := 0 # rest,
                         memory := extended_memory evm w_in isz w_out osz,
                         gas_left := g4\<rparr>))"
proof -
  note costs = ch [unfolded charged_def]
  show ?thesis
    unfolding call_steps_def
    using fail
    by (auto simp: st costs charged_chain [OF ch] refund Let_def push_def extended_memory_def)
qed

lemma call_steps_invoke:
  assumes st: "stack evm = gas_w # to_w # value_w # w_in # isz # w_out # osz # rest"
    and ch: "charged G evm (to_address to_w) gas_w value_w w_in isz w_out osz c"
    and bal: "\<not> balance (get_account (state (env evm)) (current_target (message evm))) < value_w"
    and dep: "depth (message evm) + 1 \<le> STACK_DEPTH_LIMIT G"
  shows "\<exists>k. call_steps G evm =
           Inr (Invoke
                 (evm\<lparr>stack := rest,
                      memory := extended_memory evm w_in isz w_out osz,
                      gas_left := charged_gas evm c\<rparr>)
                 \<lparr>caller = current_target (message evm),
                  target = Some (to_address to_w),
                  gas = message_call_gas_fee c,
                  value = value_w,
                  data = memory_read_bytes (extended_memory evm w_in isz w_out osz)
                           (Uint w_in) isz,
                  code = account.code (get_account (state (env evm)) (to_address to_w)),
                  current_target = to_address to_w,
                  depth = depth (message evm) + 1\<rparr>
                 k)
         \<and> (\<forall>child_evm env'.
               k (child_evm, env') =
                 bindE (U256 (length (output child_evm))) (\<lambda>output_length.
                 bindE (u256_add (charged_gas evm c) (gas_left child_evm)) (\<lambda>g4.
                 Inr (evm\<lparr>stack := 1 # rest,
                          memory :=
                            memory_write (extended_memory evm w_in isz w_out osz) (Uint w_out)
                              (take (unat (min osz output_length)) (output child_evm)),
                          gas_left := g4,
                          env := env'\<rparr>))))"
proof -
  note costs = ch [unfolded charged_def]
  show ?thesis
    unfolding call_steps_def
    using bal dep
    by (simp add: st costs charged_chain [OF ch] Let_def push_def extended_memory_def)
qed

lemma callcode_steps_fail:
  assumes st: "stack evm = gas_w # to_w # value_w # w_in # isz # w_out # osz # rest"
    and ch: "charged G evm (current_target (message evm)) gas_w value_w w_in isz w_out osz c"
    and fail: "balance (get_account (state (env evm)) (current_target (message evm))) < value_w
               \<or> STACK_DEPTH_LIMIT G < depth (message evm) + 1"
    and refund: "u256_add (charged_gas evm c) (message_call_gas_fee c) = Inr g4"
  shows "callcode_steps G evm =
           Inr (Done (evm\<lparr>stack := 0 # rest,
                         memory := extended_memory evm w_in isz w_out osz,
                         gas_left := g4\<rparr>))"
proof -
  note costs = ch [unfolded charged_def]
  show ?thesis
    unfolding callcode_steps_def
    using fail
    by (auto simp: st costs charged_chain [OF ch] refund Let_def push_def extended_memory_def)
qed

lemma callcode_steps_invoke:
  assumes st: "stack evm = gas_w # to_w # value_w # w_in # isz # w_out # osz # rest"
    and ch: "charged G evm (current_target (message evm)) gas_w value_w w_in isz w_out osz c"
    and bal: "\<not> balance (get_account (state (env evm)) (current_target (message evm))) < value_w"
    and dep: "depth (message evm) + 1 \<le> STACK_DEPTH_LIMIT G"
  shows "\<exists>k. callcode_steps G evm =
           Inr (Invoke
                 (evm\<lparr>stack := rest,
                      memory := extended_memory evm w_in isz w_out osz,
                      gas_left := charged_gas evm c\<rparr>)
                 \<lparr>caller = current_target (message evm),
                  target = Some (current_target (message evm)),
                  gas = message_call_gas_fee c,
                  value = value_w,
                  data = memory_read_bytes (extended_memory evm w_in isz w_out osz)
                           (Uint w_in) isz,
                  code = account.code (get_account (state (env evm)) (to_address to_w)),
                  current_target = current_target (message evm),
                  depth = depth (message evm) + 1\<rparr>
                 k)
         \<and> (\<forall>child_evm env'.
               k (child_evm, env') =
                 bindE (U256 (length (output child_evm))) (\<lambda>output_length.
                 bindE (u256_add (charged_gas evm c) (gas_left child_evm)) (\<lambda>g4.
                 Inr (evm\<lparr>stack := 1 # rest,
                          memory :=
                            memory_write (extended_memory evm w_in isz w_out osz) (Uint w_out)
                              (take (unat (min osz output_length)) (output child_evm)),
                          gas_left := g4,
                          env := env'\<rparr>))))"
proof -
  note costs = ch [unfolded charged_def]
  show ?thesis
    unfolding callcode_steps_def
    using bal dep
    by (simp add: st costs charged_chain [OF ch] Let_def push_def extended_memory_def)
qed

section \<open>Evaluation on the concrete frames\<close>

text \<open>
  The charges and the checks of the handlers on the sample frames, and the frames
  the handlers return there with the interpreter that returns a child frame.
\<close>

lemmas sample_defs = sample_config_def sample_evm_def sample_message_def sample_state_def
  sample_memory_def returning_interpreter_def raising_interpreter_def sample_frame_def

lemmas sample_eval = sample_defs create_charged_def charged_def charged_gas_def
  extended_memory_def Uint_def U256_def u256_add_def ceil32_def extend_memory_def
  get_account_def to_address_def

lemma sample_create_charged:
  "create_charged sample_config (sample_evm\<lparr>stack := s, message := m\<rparr>) 0 4 0"
  by (simp add: create_charged_def sample_defs Uint_def U256_def ceil32_def)

lemma sample_create_passes:
  "\<not> balance (get_account (state (env (sample_evm\<lparr>stack := s, message := sample_message\<rparr>)))
        (origin (env (sample_evm\<lparr>stack := s, message := sample_message\<rparr>)))) < 10"
  "depth (message (sample_evm\<lparr>stack := s, message := sample_message\<rparr>)) + 1
     \<le> STACK_DEPTH_LIMIT sample_config"
  by (simp_all add: sample_defs get_account_def)

lemma sample_create_runs:
  "\<exists>r. create sample_config returning_interpreter (sample_frame 0 [10, 0, 4, 99]) = Inr r"
proof -
  let ?F = "sample_frame 0 [10, 0, 4, 99]"
  have st: "stack ?F = 10 # 0 # 4 # [99]"
    and ch: "create_charged sample_config ?F 0 4 0"
    and bal: "\<not> balance (get_account (state (env ?F)) (origin (env ?F))) < 10"
    and dep: "depth (message ?F) + 1 \<le> STACK_DEPTH_LIMIT sample_config"
    by (simp_all add: sample_eval)
  from create_steps_invoke [OF st ch bal dep] obtain e :: evm and m k
    where steps: "create_steps sample_config ?F = Inr (Invoke e m k)"
      and k: "\<And>child_evm env'. \<exists>r. k (child_evm, env') = Inr r"
    by fastforce
  from k show ?thesis
    by (simp add: create_def steps returning_interpreter_def)
qed

lemma sample_call_runs:
  "\<exists>r. call sample_config returning_interpreter
         (sample_frame 0 [5000, 3, 0, 0, 4, 30, 2, 77]) = Inr r"
  "\<exists>r. callcode sample_config returning_interpreter
         (sample_frame 0 [5000, 3, 0, 0, 4, 30, 2, 77]) = Inr r"
proof -
  let ?F = "sample_frame 0 [5000, 3, 0, 0, 4, 30, 2, 77]"
  let ?c = "\<lparr>call_gas_fee = 5040, message_call_gas_fee = 5000,
             gas_input_memory = 0, gas_output_memory = 0\<rparr>"
  have st: "stack ?F = 5000 # 3 # 0 # 0 # 4 # 30 # 2 # [77]"
    and ch: "charged sample_config ?F (to_address 3) 5000 0 0 4 30 2 ?c"
    and ch': "charged sample_config ?F (current_target (message ?F)) 5000 0 0 4 30 2 ?c"
    and bal: "\<not> balance (get_account (state (env ?F)) (current_target (message ?F))) < 0"
    and dep: "depth (message ?F) + 1 \<le> STACK_DEPTH_LIMIT sample_config"
    and g: "charged_gas ?F ?c = 94960"
    by (simp_all add: sample_eval)
  have merge: "\<exists>r. bindE (U256 (length [170, 187, 204 :: byte])) (\<lambda>output_length.
                 bindE (u256_add 94960 (5000 - 100)) (\<lambda>g4. Inr (f output_length g4))) = Inr r"
    for f :: "u256 \<Rightarrow> u256 \<Rightarrow> evm"
    by (simp add: U256_def u256_add_def)
  from call_steps_invoke [OF st ch bal dep] obtain e :: evm and m k
    where steps: "call_steps sample_config ?F = Inr (Invoke e m k)"
      and gm: "gas m = 5000"
      and k: "\<And>child_evm env'.
               k (child_evm, env') =
                 bindE (U256 (length (output child_evm))) (\<lambda>output_length.
                 bindE (u256_add (charged_gas ?F ?c) (gas_left child_evm)) (\<lambda>g4.
                 Inr (?F\<lparr>stack := 1 # [77],
                          memory :=
                            memory_write (extended_memory ?F 0 4 30 2) (Uint 30)
                              (take (unat (min 2 output_length)) (output child_evm)),
                          gas_left := g4,
                          env := env'\<rparr>)))"
    by force
  show "\<exists>r. call sample_config returning_interpreter ?F = Inr r"
    using merge by (simp add: call_def steps returning_interpreter_def k g gm)
  from callcode_steps_invoke [OF st ch' bal dep] obtain e :: evm and m k
    where steps: "callcode_steps sample_config ?F = Inr (Invoke e m k)"
      and gm: "gas m = 5000"
      and k: "\<And>child_evm env'.
               k (child_evm, env') =
                 bindE (U256 (length (output child_evm))) (\<lambda>output_length.
                 bindE (u256_add (charged_gas ?F ?c) (gas_left child_evm)) (\<lambda>g4.
                 Inr (?F\<lparr>stack := 1 # [77],
                          memory :=
                            memory_write (extended_memory ?F 0 4 30 2) (Uint 30)
                              (take (unat (min 2 output_length)) (output child_evm)),
                          gas_left := g4,
                          env := env'\<rparr>)))"
    by force
  show "\<exists>r. callcode sample_config returning_interpreter ?F = Inr r"
    using merge by (simp add: callcode_def steps returning_interpreter_def k g gm)
qed

lemma sample_callcode_unknown_address:
  "callcode sample_config returning_interpreter (sample_frame 0 [5000, 9, 0, 0, 4, 30, 2, 77])
     = Inr ((sample_frame 0 [5000, 9, 0, 0, 4, 30, 2, 77])
              \<lparr>stack := [1, 77], memory := take 30 sample_memory @ [170, 187],
               gas_left := 99860\<rparr>)"
  "callcode_spec sample_config returning_interpreter
       (sample_frame 0 [5000, 9, 0, 0, 4, 30, 2, 77])
     = Inr ((sample_frame 0 [5000, 9, 0, 0, 4, 30, 2, 77])
              \<lparr>stack := [1, 77], memory := take 30 sample_memory @ [170, 187],
               gas_left := 74860\<rparr>)"
proof -
  let ?F = "sample_frame 0 [5000, 9, 0, 0, 4, 30, 2, 77]"
  let ?c = "\<lparr>call_gas_fee = 5040, message_call_gas_fee = 5000,
             gas_input_memory = 0, gas_output_memory = 0\<rparr>"
  let ?d = "\<lparr>call_gas_fee = 30040, message_call_gas_fee = 5000,
             gas_input_memory = 0, gas_output_memory = 0\<rparr>"
  have st: "stack ?F = 5000 # 9 # 0 # 0 # 4 # 30 # 2 # [77]"
    and ch: "charged sample_config ?F (current_target (message ?F)) 5000 0 0 4 30 2 ?c"
    and ch': "charged sample_config ?F (to_address 9) 5000 0 0 4 30 2 ?d"
    and bal: "\<not> balance (get_account (state (env ?F)) (current_target (message ?F))) < 0"
    and dep: "depth (message ?F) + 1 \<le> STACK_DEPTH_LIMIT sample_config"
    and g: "charged_gas ?F ?c = 94960" "charged_gas ?F ?d = 69960"
    and mem: "extended_memory ?F 0 4 30 2 = sample_memory"
    by (simp_all add: sample_eval)
  have w: "memory_write sample_memory (Uint 30) [170, 187] = take 30 sample_memory @ [170, 187]"
    by (simp add: sample_eval memory_write_def)
  have same: "?F\<lparr>stack := s, memory := x, gas_left := y, env := env ?F\<rparr>
                = ?F\<lparr>stack := s, memory := x, gas_left := y\<rparr>" for s x y
    by (simp add: sample_defs)
  from callcode_steps_invoke [OF st ch bal dep] obtain e :: evm and m k
    where steps: "callcode_steps sample_config ?F = Inr (Invoke e m k)"
      and e: "env e = env ?F"
      and gm: "gas m = 5000"
      and k: "\<And>child_evm env'.
               k (child_evm, env') =
                 bindE (U256 (length (output child_evm))) (\<lambda>output_length.
                 bindE (u256_add (charged_gas ?F ?c) (gas_left child_evm)) (\<lambda>g4.
                 Inr (?F\<lparr>stack := 1 # [77],
                          memory :=
                            memory_write (extended_memory ?F 0 4 30 2) (Uint 30)
                              (take (unat (min 2 output_length)) (output child_evm)),
                          gas_left := g4,
                          env := env'\<rparr>)))"
    by force
  show "callcode sample_config returning_interpreter ?F
     = Inr (?F\<lparr>stack := [1, 77], memory := take 30 sample_memory @ [170, 187],
               gas_left := 99860\<rparr>)"
    by (simp add: callcode_def steps returning_interpreter_def k g gm e mem w same
          U256_def u256_add_def)
  from call_steps_invoke [OF st ch' bal dep] obtain e :: evm and m k
    where steps: "call_steps sample_config ?F = Inr (Invoke e m k)"
      and e: "env e = env ?F"
      and gm: "gas m = 5000"
      and k: "\<And>child_evm env'.
               k (child_evm, env') =
                 bindE (U256 (length (output child_evm))) (\<lambda>output_length.
                 bindE (u256_add (charged_gas ?F ?d) (gas_left child_evm)) (\<lambda>g4.
                 Inr (?F\<lparr>stack := 1 # [77],
                          memory :=
                            memory_write (extended_memory ?F 0 4 30 2) (Uint 30)
                              (take (unat (min 2 output_length)) (output child_evm)),
                          gas_left := g4,
                          env := env'\<rparr>)))"
    by force
  show "callcode_spec sample_config returning_interpreter ?F
     = Inr (?F\<lparr>stack := [1, 77], memory := take 30 sample_memory @ [170, 187],
               gas_left := 74860\<rparr>)"
    by (simp add: callcode_spec_def call_def steps returning_interpreter_def k g gm e mem w same
          U256_def u256_add_def)
qed

section \<open>RETURN halts with the bytes of the region\<close>

text \<open>
  Claim C8. For every RETURN on a frame whose stack holds at least two words and
  whose gas covers the charge: the handler pops the start and the size, charges the
  zero base cost plus the memory-extension cost, extends memory, sets the output
  buffer to exactly the bytes of the region (as many bytes as the size, byte \<open>i\<close>
  being the memory byte at start plus \<open>i\<close>) and sets the running flag to false. With
  size 0 the frame halts with an empty output buffer, memory untouched, whatever
  the start offset.
\<close>

theorem return_op_halts:
  assumes st: "stack evm = w_start # memory_size # rest"
    and cost: "calculate_gas_extend_memory G (memory evm) (Uint w_start) memory_size
                 = Inr extend_cost"
    and gas: "extend_cost \<le> gas_left evm"
  shows "return_op G evm =
           Inr (evm\<lparr>stack := rest,
                    memory := extend_memory (memory evm) (Uint w_start) memory_size,
                    gas_left := gas_left evm - extend_cost,
                    output := memory_read_bytes
                                (extend_memory (memory evm) (Uint w_start) memory_size)
                                (Uint w_start) memory_size,
                    running := False\<rparr>)
       \<and> unat (gas_left evm - extend_cost) = unat (gas_left evm) - (unat GAS_ZERO + unat extend_cost)
       \<and> length (memory_read_bytes
                   (extend_memory (memory evm) (Uint w_start) memory_size)
                   (Uint w_start) memory_size) = unat memory_size
       \<and> (\<forall>i < unat memory_size.
             memory_read_bytes (extend_memory (memory evm) (Uint w_start) memory_size)
                 (Uint w_start) memory_size ! i
               = extend_memory (memory evm) (Uint w_start) memory_size ! (Uint w_start + i))
       \<and> (memory_size = 0 \<longrightarrow>
             return_op G evm =
               Inr (evm\<lparr>stack := rest, gas_left := gas_left evm - extend_cost,
                        output := [], running := False\<rparr>))"
proof -
  have run: "return_op G evm =
           Inr (evm\<lparr>stack := rest,
                    memory := extend_memory (memory evm) (Uint w_start) memory_size,
                    gas_left := gas_left evm - extend_cost,
                    output := memory_read_bytes
                                (extend_memory (memory evm) (Uint w_start) memory_size)
                                (Uint w_start) memory_size,
                    running := False\<rparr>)"
    unfolding return_op_def
    by (simp add: st cost subtract_gas_le [OF gas] Let_def)
  have charge: "unat (gas_left evm - extend_cost)
                  = unat (gas_left evm) - (unat GAS_ZERO + unat extend_cost)"
    using gas by (simp add: unat_sub GAS_ZERO_def)
  have zero: "memory_size = 0 \<longrightarrow>
             return_op G evm =
               Inr (evm\<lparr>stack := rest, gas_left := gas_left evm - extend_cost,
                        output := [], running := False\<rparr>)"
    by (simp add: run extend_memory_def memory_read_bytes_def)
  show ?thesis
    using run charge zero length_memory_read_bytes nth_memory_read_bytes by blast
qed

text \<open>
  RETURN of the four bytes at offset 30 of a 32-byte memory: one more word of
  memory is paid for, the output holds the last two bytes and two zeros. RETURN of
  no bytes at offset 5000: nothing is paid and the output is empty.
\<close>

theorem return_op_halts_witness:
  "calculate_gas_extend_memory sample_config sample_memory (Uint 30) 4 = Inr 3
   \<and> return_op sample_config (sample_evm\<lparr>stack := [30, 4, 99]\<rparr>) =
       Inr (sample_evm\<lparr>stack := [99], memory := sample_memory @ replicate 32 0,
                        gas_left := 99997, output := [31, 32, 0, 0], running := False\<rparr>)
   \<and> return_op sample_config (sample_evm\<lparr>stack := [5000, 0, 99]\<rparr>) =
       Inr (sample_evm\<lparr>stack := [99], output := [], running := False\<rparr>)"
proof -
  have two: "replicate 2 (0 :: byte) = [0, 0]"
    by (simp add: numeral_2_eq_2)
  show ?thesis
    using return_op_halts [THEN conjunct1,
        of "sample_evm\<lparr>stack := [30, 4, 99]\<rparr>" 30 4 "[99]" sample_config 3]
      return_op_halts [THEN conjunct2, THEN conjunct2, THEN conjunct2, THEN conjunct2, THEN mp,
        of "sample_evm\<lparr>stack := [5000, 0, 99]\<rparr>" 5000 0 "[99]" sample_config 0]
    by (simp add: sample_defs Uint_def U256_def ceil32_def extend_memory_def
          memory_read_bytes_def two)
qed

section \<open>CREATE compares the endowment with the originator's balance\<close>

text \<open>
  Claim C2. For every CREATE whose pops and gas charge succeed, the balance
  compared against the popped endowment is that of the environment's origin
  account, not that of the frame's own executing account. When it is less than the
  endowment, exactly one word, 0, is pushed, the environment (so every nonce) is
  unchanged, the result is the same for every interpreter (no recursive creation
  is invoked), and gas_left reflects only the creation-plus-memory charge. When it
  is not less (and the depth allows), the handler goes on to the recursive call,
  whatever the balance of the executing account.
\<close>

theorem create_checks_origin_balance:
  assumes st: "stack evm = endowment # w_start # memory_size # rest"
    and ch: "create_charged G evm w_start memory_size extend_cost"
  shows "(balance (get_account (state (env evm)) (origin (env evm))) < endowment \<longrightarrow>
            create_steps G evm =
              Inr (Done (evm\<lparr>stack := 0 # rest,
                            memory := extend_memory (memory evm) (Uint w_start) memory_size,
                            gas_left := gas_left evm - (GAS_CREATE G + extend_cost)\<rparr>))
          \<and> create G process_create_message evm =
              Inr (evm\<lparr>stack := 0 # rest,
                       memory := extend_memory (memory evm) (Uint w_start) memory_size,
                       gas_left := gas_left evm - (GAS_CREATE G + extend_cost)\<rparr>)
          \<and> unat (gas_left evm - (GAS_CREATE G + extend_cost))
              = unat (gas_left evm) - (unat (GAS_CREATE G) + unat extend_cost))
       \<and> (\<not> balance (get_account (state (env evm)) (origin (env evm))) < endowment
            \<and> depth (message evm) + 1 \<le> STACK_DEPTH_LIMIT G \<longrightarrow>
            (\<exists>e m k. create_steps G evm = Inr (Invoke e m k)))"
proof (intro conjI impI)
  assume poor: "balance (get_account (state (env evm)) (origin (env evm))) < endowment"
  then show steps: "create_steps G evm =
              Inr (Done (evm\<lparr>stack := 0 # rest,
                            memory := extend_memory (memory evm) (Uint w_start) memory_size,
                            gas_left := gas_left evm - (GAS_CREATE G + extend_cost)\<rparr>))"
    using create_steps_fail [OF st ch] by blast
  then show "create G process_create_message evm =
              Inr (evm\<lparr>stack := 0 # rest,
                       memory := extend_memory (memory evm) (Uint w_start) memory_size,
                       gas_left := gas_left evm - (GAS_CREATE G + extend_cost)\<rparr>)"
    by (simp add: create_def)
  show "unat (gas_left evm - (GAS_CREATE G + extend_cost))
              = unat (gas_left evm) - (unat (GAS_CREATE G) + unat extend_cost)"
    by (rule create_charge(3) [OF ch])
next
  assume "\<not> balance (get_account (state (env evm)) (origin (env evm))) < endowment
            \<and> depth (message evm) + 1 \<le> STACK_DEPTH_LIMIT G"
  then show "\<exists>e m k. create_steps G evm = Inr (Invoke e m k)"
    using create_steps_invoke [OF st ch] by blast
qed

text \<open>
  The frame runs as the rich account 3 and asks for an endowment of 40, more than
  the 30 of the originator: 0 is pushed, 32000 is charged. The frame runs as
  account 2, which holds 5, and asks for 10: the handler reaches the call.
\<close>

theorem create_checks_origin_balance_witness:
  "balance (get_account sample_state 1) = 30
   \<and> balance (get_account sample_state 3) = 1000
   \<and> create sample_config raising_interpreter
        (sample_evm\<lparr>stack := [40, 0, 4, 99], message := sample_message\<lparr>current_target := 3\<rparr>\<rparr>)
      = Inr (sample_evm\<lparr>stack := [0, 99], message := sample_message\<lparr>current_target := 3\<rparr>,
                       gas_left := 68000\<rparr>)
   \<and> balance (get_account sample_state 2) = 5
   \<and> (\<exists>e m k. create_steps sample_config
                  (sample_evm\<lparr>stack := [10, 0, 4, 99], message := sample_message\<rparr>)
                = Inr (Invoke e m k))"
proof -
  have poor: "balance (get_account (state (env (sample_evm\<lparr>stack := [40, 0, 4, 99],
                  message := sample_message\<lparr>current_target := 3\<rparr>\<rparr>)))
                (origin (env (sample_evm\<lparr>stack := [40, 0, 4, 99],
                  message := sample_message\<lparr>current_target := 3\<rparr>\<rparr>)))) < 40"
    by (simp add: sample_defs get_account_def)
  have rich: "\<not> balance (get_account (state (env (sample_evm\<lparr>stack := [10, 0, 4, 99],
                  message := sample_message\<rparr>)))
                (origin (env (sample_evm\<lparr>stack := [10, 0, 4, 99],
                  message := sample_message\<rparr>)))) < 10
              \<and> depth (message (sample_evm\<lparr>stack := [10, 0, 4, 99],
                  message := sample_message\<rparr>)) + 1 \<le> STACK_DEPTH_LIMIT sample_config"
    by (simp add: sample_defs get_account_def)
  have a: "create sample_config raising_interpreter
        (sample_evm\<lparr>stack := [40, 0, 4, 99], message := sample_message\<lparr>current_target := 3\<rparr>\<rparr>)
      = Inr (sample_evm\<lparr>stack := [0, 99], message := sample_message\<lparr>current_target := 3\<rparr>,
                       gas_left := 68000\<rparr>)"
    using create_checks_origin_balance [THEN conjunct1, THEN mp, OF _ sample_create_charged poor,
        THEN conjunct2, THEN conjunct1, of "[99]" raising_interpreter]
    by (simp add: sample_defs Uint_def extend_memory_def ceil32_def)
  have b: "\<exists>e m k. create_steps sample_config
                  (sample_evm\<lparr>stack := [10, 0, 4, 99], message := sample_message\<rparr>)
                = Inr (Invoke e m k)"
    using create_checks_origin_balance [THEN conjunct2, THEN mp, OF _ sample_create_charged rich,
        of "[99]"]
    by simp
  show ?thesis
    using a b by (simp add: sample_state_def get_account_def)
qed

section \<open>CREATE hands all its gas to the child\<close>

text \<open>
  Claim C4. For every CREATE that passes the balance and depth checks: the frame
  stands at the recursive call with gas_left 0; the child message carries as gas
  the whole gas_left the parent had after the creation charge, the parent's current
  account as caller, the empty target, empty data, the popped endowment as value,
  the initialization bytes read from memory as code, the derived address as
  current target and the parent's depth plus one; and when the interpreter returns
  a child frame, the handler returns with the child's gas_left as the parent's.
\<close>

theorem create_child_message:
  assumes st: "stack evm = endowment # w_start # memory_size # rest"
    and ch: "create_charged G evm w_start memory_size extend_cost"
    and bal: "\<not> balance (get_account (state (env evm)) (origin (env evm))) < endowment"
    and dep: "depth (message evm) + 1 \<le> STACK_DEPTH_LIMIT G"
  shows "\<exists>e m k.
           create_steps G evm = Inr (Invoke e m k)
         \<and> create G process_create_message evm = bindE (process_create_message m (env e)) k
         \<and> gas_left e = 0
         \<and> gas m = gas_left evm - (GAS_CREATE G + extend_cost)
         \<and> unat (gas m) = unat (gas_left evm) - (unat (GAS_CREATE G) + unat extend_cost)
         \<and> caller m = current_target (message evm)
         \<and> target m = None
         \<and> data m = []
         \<and> value m = endowment
         \<and> message.code m =
               memory_read_bytes (extend_memory (memory evm) (Uint w_start) memory_size)
                 (Uint w_start) memory_size
         \<and> current_target m =
               compute_contract_address G (current_target (message evm))
                 (nonce (get_account (state (env evm)) (current_target (message evm))))
         \<and> depth m = depth (message evm) + 1
         \<and> (\<forall>child_evm env'.
               process_create_message m (env e) = Inr (child_evm, env') \<longrightarrow>
               (\<exists>r. create G process_create_message evm = Inr r
                    \<and> gas_left r = gas_left child_evm))"
proof -
  from create_steps_invoke [OF st ch bal dep] obtain k where
    steps: "create_steps G evm =
           Inr (Invoke
                 (evm\<lparr>stack := rest,
                      memory := extend_memory (memory evm) (Uint w_start) memory_size,
                      gas_left := 0,
                      env := (env evm)\<lparr>state :=
                        increment_nonce (state (env evm)) (current_target (message evm))\<rparr>\<rparr>)
                 \<lparr>caller = current_target (message evm),
                  target = None,
                  gas = gas_left evm - (GAS_CREATE G + extend_cost),
                  value = endowment,
                  data = [],
                  code = memory_read_bytes
                           (extend_memory (memory evm) (Uint w_start) memory_size)
                           (Uint w_start) memory_size,
                  current_target =
                    compute_contract_address G (current_target (message evm))
                      (nonce (get_account (state (env evm)) (current_target (message evm)))),
                  depth = depth (message evm) + 1\<rparr>
                 k)"
    and merge: "\<And>child_evm env'.
               k (child_evm, env') =
                 Inr (evm\<lparr>stack := U256_from_be_bytes (current_target (message child_evm)) # rest,
                          memory := extend_memory (memory evm) (Uint w_start) memory_size,
                          gas_left := gas_left child_evm,
                          env := env'\<rparr>)"
    by blast
  show ?thesis
    by (intro exI conjI, rule steps)
       (simp_all add: create_def steps merge create_charge(3) [OF ch])
qed

text \<open>
  The frame runs as account 2 with 100000 gas and creates with endowment 10 from
  the first four bytes of memory: the child is given 68000 gas, the interpreter
  returns 67900 of it and that is what the parent is left with.
\<close>

theorem create_child_message_witness:
  "\<exists>e m k r.
      create_steps sample_config (sample_evm\<lparr>stack := [10, 0, 4, 99], message := sample_message\<rparr>)
        = Inr (Invoke e m k)
    \<and> gas_left e = 0 \<and> gas m = 68000 \<and> value m = 10 \<and> message.code m = [1, 2, 3, 4]
    \<and> depth m = 1
    \<and> create sample_config returning_interpreter
         (sample_evm\<lparr>stack := [10, 0, 4, 99], message := sample_message\<rparr>) = Inr r
    \<and> gas_left r = 67900"
proof -
  let ?F = "sample_evm\<lparr>stack := [10, 0, 4, 99], message := sample_message\<rparr>"
  have st: "stack ?F = 10 # 0 # 4 # [99]"
    by simp
  from create_child_message [OF st sample_create_charged sample_create_passes,
      of returning_interpreter]
  obtain e m k where steps: "create_steps sample_config ?F = Inr (Invoke e m k)"
    and e: "gas_left e = 0"
    and g: "gas m = gas_left ?F - (GAS_CREATE sample_config + 0)"
    and v: "value m = 10"
    and c: "message.code m =
              memory_read_bytes (extend_memory (memory ?F) (Uint 0) 4) (Uint 0) 4"
    and d: "depth m = depth (message ?F) + 1"
    and ret: "\<forall>child_evm env'.
               returning_interpreter m (env e) = Inr (child_evm, env') \<longrightarrow>
               (\<exists>r. create sample_config returning_interpreter ?F = Inr r
                    \<and> gas_left r = gas_left child_evm)"
    by blast
  have "returning_interpreter m (env e) =
          Inr (\<lparr>pc = 0, stack = [], memory = [], gas_left = gas m - 100, env = env e,
                running = False, message = m, output = [170, 187, 204]\<rparr>, env e)"
    by (simp add: returning_interpreter_def)
  with ret obtain r where r: "create sample_config returning_interpreter ?F = Inr r"
    and gr: "gas_left r = gas m - 100"
    by fastforce
  have g': "gas m = 68000"
    using g by (simp add: sample_defs)
  have c': "message.code m = [1, 2, 3, 4]"
    using c by (simp add: sample_defs Uint_def extend_memory_def ceil32_def memory_read_bytes_def)
  have d': "depth m = 1"
    using d by (simp add: sample_defs)
  show ?thesis
    using steps e g' v c' d' r gr by auto
qed

section \<open>CREATE increments the creator's nonce\<close>

text \<open>
  Claim C5. For every CREATE that passes the balance and depth checks, the nonce of
  the frame's current account is incremented exactly once before the recursive
  call, whatever that call does afterwards: the environment handed to the
  interpreter holds the nonce plus one and every other account unchanged, a
  fatal condition of the interpreter propagates, and the handler returns the
  environment as the interpreter left it. The address of the new contract is
  \<open>compute_contract_address\<close> of the creating account and the nonce before the
  increment.
\<close>

theorem create_increments_nonce:
  assumes st: "stack evm = endowment # w_start # memory_size # rest"
    and ch: "create_charged G evm w_start memory_size extend_cost"
    and bal: "\<not> balance (get_account (state (env evm)) (origin (env evm))) < endowment"
    and dep: "depth (message evm) + 1 \<le> STACK_DEPTH_LIMIT G"
  shows "\<exists>e m k.
           create_steps G evm = Inr (Invoke e m k)
         \<and> create G process_create_message evm = bindE (process_create_message m (env e)) k
         \<and> state (env e) = increment_nonce (state (env evm)) (current_target (message evm))
         \<and> nonce (get_account (state (env e)) (current_target (message evm)))
             = nonce (get_account (state (env evm)) (current_target (message evm))) + 1
         \<and> (\<forall>a. a \<noteq> current_target (message evm) \<longrightarrow>
               get_account (state (env e)) a = get_account (state (env evm)) a)
         \<and> current_target m =
               compute_contract_address G (current_target (message evm))
                 (nonce (get_account (state (env evm)) (current_target (message evm))))
         \<and> (\<forall>err. process_create_message m (env e) = Inl err \<longrightarrow>
               create G process_create_message evm = Inl err)
         \<and> (\<forall>child_evm env'.
               process_create_message m (env e) = Inr (child_evm, env') \<longrightarrow>
               (\<exists>r. create G process_create_message evm = Inr r \<and> env r = env'))"
proof -
  from create_steps_invoke [OF st ch bal dep] obtain k where
    steps: "create_steps G evm =
           Inr (Invoke
                 (evm\<lparr>stack := rest,
                      memory := extend_memory (memory evm) (Uint w_start) memory_size,
                      gas_left := 0,
                      env := (env evm)\<lparr>state :=
                        increment_nonce (state (env evm)) (current_target (message evm))\<rparr>\<rparr>)
                 \<lparr>caller = current_target (message evm),
                  target = None,
                  gas = gas_left evm - (GAS_CREATE G + extend_cost),
                  value = endowment,
                  data = [],
                  code = memory_read_bytes
                           (extend_memory (memory evm) (Uint w_start) memory_size)
                           (Uint w_start) memory_size,
                  current_target =
                    compute_contract_address G (current_target (message evm))
                      (nonce (get_account (state (env evm)) (current_target (message evm)))),
                  depth = depth (message evm) + 1\<rparr>
                 k)"
    and merge: "\<And>child_evm env'.
               k (child_evm, env') =
                 Inr (evm\<lparr>stack := U256_from_be_bytes (current_target (message child_evm)) # rest,
                          memory := extend_memory (memory evm) (Uint w_start) memory_size,
                          gas_left := gas_left child_evm,
                          env := env'\<rparr>)"
    by blast
  show ?thesis
    by (intro exI conjI, rule steps)
       (simp_all add: create_def steps merge get_account_increment_nonce_other)
qed

text \<open>
  Account 2 has nonce 7: the interpreter is handed nonce 8 and the address derived
  from (2, 7), account 1 is untouched, and the frame returns with nonce 8.
\<close>

theorem create_increments_nonce_witness:
  "nonce (get_account sample_state 2) = 7
   \<and> (\<exists>e m k r.
        create_steps sample_config (sample_evm\<lparr>stack := [10, 0, 4, 99], message := sample_message\<rparr>)
          = Inr (Invoke e m k)
      \<and> nonce (get_account (state (env e)) 2) = 8
      \<and> get_account (state (env e)) 1 = get_account sample_state 1
      \<and> current_target m = 2007
      \<and> create sample_config returning_interpreter
           (sample_evm\<lparr>stack := [10, 0, 4, 99], message := sample_message\<rparr>) = Inr r
      \<and> nonce (get_account (state (env r)) 2) = 8)"
proof -
  let ?F = "sample_evm\<lparr>stack := [10, 0, 4, 99], message := sample_message\<rparr>"
  have st: "stack ?F = 10 # 0 # 4 # [99]"
    by simp
  from create_increments_nonce [OF st sample_create_charged sample_create_passes,
      of returning_interpreter]
  obtain e m k where steps: "create_steps sample_config ?F = Inr (Invoke e m k)"
    and n: "nonce (get_account (state (env e)) (current_target (message ?F)))
             = nonce (get_account (state (env ?F)) (current_target (message ?F))) + 1"
    and other: "\<forall>a. a \<noteq> current_target (message ?F) \<longrightarrow>
               get_account (state (env e)) a = get_account (state (env ?F)) a"
    and a: "current_target m =
               compute_contract_address sample_config (current_target (message ?F))
                 (nonce (get_account (state (env ?F)) (current_target (message ?F))))"
    and ret: "\<forall>child_evm env'.
               returning_interpreter m (env e) = Inr (child_evm, env') \<longrightarrow>
               (\<exists>r. create sample_config returning_interpreter ?F = Inr r \<and> env r = env')"
    by blast
  have "returning_interpreter m (env e) =
          Inr (\<lparr>pc = 0, stack = [], memory = [], gas_left = gas m - 100, env = env e,
                running = False, message = m, output = [170, 187, 204]\<rparr>, env e)"
    by (simp add: returning_interpreter_def)
  with ret obtain r where r: "create sample_config returning_interpreter ?F = Inr r"
    and er: "env r = env e"
    by fastforce
  have n': "nonce (get_account (state (env e)) 2) = 8"
    using n by (simp add: sample_defs get_account_def)
  have o': "get_account (state (env e)) 1 = get_account sample_state 1"
    using other by (simp add: sample_defs)
  have a': "current_target m = 2007"
    using a by (simp add: sample_defs get_account_def)
  have "nonce (get_account sample_state 2) = 7"
    by (simp add: sample_state_def get_account_def)
  then show ?thesis
    using steps n' o' a' r er by auto
qed

section \<open>The depth guard\<close>

text \<open>
  Claim C3. For every CREATE, CALL or CALLCODE that reaches the depth check (the
  pops and charges have succeeded and the balance suffices): if the parent's depth
  plus one exceeds the depth limit, the handler pushes 0 and returns, with the same
  result for every interpreter (the recursive processing is never invoked), CALL
  and CALLCODE also adding message_call_gas_fee back to gas_left; if the parent's
  depth plus one equals the limit, the handler stands at the recursive call with a
  child message of depth equal to the limit, and its result is that of the
  interpreter on this message, merged by the rest of the handler.
\<close>

theorem depth_guard:
  "(stack evm = endowment # w_start # memory_size # rest
      \<and> create_charged G evm w_start memory_size extend_cost
      \<and> \<not> balance (get_account (state (env evm)) (origin (env evm))) < endowment \<longrightarrow>
      (STACK_DEPTH_LIMIT G < depth (message evm) + 1 \<longrightarrow>
         create_steps G evm =
           Inr (Done (evm\<lparr>stack := 0 # rest,
                         memory := extend_memory (memory evm) (Uint w_start) memory_size,
                         gas_left := gas_left evm - (GAS_CREATE G + extend_cost)\<rparr>))
       \<and> create G process evm =
           Inr (evm\<lparr>stack := 0 # rest,
                    memory := extend_memory (memory evm) (Uint w_start) memory_size,
                    gas_left := gas_left evm - (GAS_CREATE G + extend_cost)\<rparr>))
    \<and> (depth (message evm) + 1 = STACK_DEPTH_LIMIT G \<longrightarrow>
         (\<exists>e m k. create_steps G evm = Inr (Invoke e m k)
                \<and> depth m = STACK_DEPTH_LIMIT G
                \<and> create G process evm = bindE (process m (env e)) k)))
   \<and> (stack evm = gas_w # to_w # value_w # w_in # isz # w_out # osz # rest'
      \<and> charged G evm (to_address to_w) gas_w value_w w_in isz w_out osz c
      \<and> \<not> balance (get_account (state (env evm)) (current_target (message evm))) < value_w \<longrightarrow>
      (STACK_DEPTH_LIMIT G < depth (message evm) + 1
         \<and> u256_add (charged_gas evm c) (message_call_gas_fee c) = Inr g_after \<longrightarrow>
         call_steps G evm =
           Inr (Done (evm\<lparr>stack := 0 # rest',
                         memory := extended_memory evm w_in isz w_out osz,
                         gas_left := g_after\<rparr>))
       \<and> call G process evm =
           Inr (evm\<lparr>stack := 0 # rest',
                    memory := extended_memory evm w_in isz w_out osz,
                    gas_left := g_after\<rparr>)
       \<and> unat g_after = unat (charged_gas evm c) + unat (message_call_gas_fee c))
    \<and> (depth (message evm) + 1 = STACK_DEPTH_LIMIT G \<longrightarrow>
         (\<exists>e m k. call_steps G evm = Inr (Invoke e m k)
                \<and> depth m = STACK_DEPTH_LIMIT G
                \<and> call G process evm = bindE (process m (env e)) k)))
   \<and> (stack evm = gas_w # to_w # value_w # w_in # isz # w_out # osz # rest'
      \<and> charged G evm (current_target (message evm)) gas_w value_w w_in isz w_out osz c'
      \<and> \<not> balance (get_account (state (env evm)) (current_target (message evm))) < value_w \<longrightarrow>
      (STACK_DEPTH_LIMIT G < depth (message evm) + 1
         \<and> u256_add (charged_gas evm c') (message_call_gas_fee c') = Inr g_after' \<longrightarrow>
         callcode_steps G evm =
           Inr (Done (evm\<lparr>stack := 0 # rest',
                         memory := extended_memory evm w_in isz w_out osz,
                         gas_left := g_after'\<rparr>))
       \<and> callcode G process evm =
           Inr (evm\<lparr>stack := 0 # rest',
                    memory := extended_memory evm w_in isz w_out osz,
                    gas_left := g_after'\<rparr>)
       \<and> unat g_after' = unat (charged_gas evm c') + unat (message_call_gas_fee c'))
    \<and> (depth (message evm) + 1 = STACK_DEPTH_LIMIT G \<longrightarrow>
         (\<exists>e m k. callcode_steps G evm = Inr (Invoke e m k)
                \<and> depth m = STACK_DEPTH_LIMIT G
                \<and> callcode G process evm = bindE (process m (env e)) k)))"
proof (intro conjI impI; (elim conjE)?)
  assume st: "stack evm = endowment # w_start # memory_size # rest"
    and ch: "create_charged G evm w_start memory_size extend_cost"
  {
    assume deep: "STACK_DEPTH_LIMIT G < depth (message evm) + 1"
    then show steps: "create_steps G evm =
           Inr (Done (evm\<lparr>stack := 0 # rest,
                         memory := extend_memory (memory evm) (Uint w_start) memory_size,
                         gas_left := gas_left evm - (GAS_CREATE G + extend_cost)\<rparr>))"
      using create_steps_fail [OF st ch] by blast
    then show "create G process evm =
           Inr (evm\<lparr>stack := 0 # rest,
                    memory := extend_memory (memory evm) (Uint w_start) memory_size,
                    gas_left := gas_left evm - (GAS_CREATE G + extend_cost)\<rparr>)"
      by (simp add: create_def)
  }
  {
    assume bal: "\<not> balance (get_account (state (env evm)) (origin (env evm))) < endowment"
      and lim: "depth (message evm) + 1 = STACK_DEPTH_LIMIT G"
    from create_steps_invoke [OF st ch bal] lim
    show "\<exists>e m k. create_steps G evm = Inr (Invoke e m k)
                \<and> depth m = STACK_DEPTH_LIMIT G
                \<and> create G process evm = bindE (process m (env e)) k"
      by (fastforce simp: create_def)
  }
next
  assume st: "stack evm = gas_w # to_w # value_w # w_in # isz # w_out # osz # rest'"
    and ch: "charged G evm (to_address to_w) gas_w value_w w_in isz w_out osz c"
  {
    assume deep: "STACK_DEPTH_LIMIT G < depth (message evm) + 1"
      and refund: "u256_add (charged_gas evm c) (message_call_gas_fee c) = Inr g_after"
    then show steps: "call_steps G evm =
           Inr (Done (evm\<lparr>stack := 0 # rest',
                         memory := extended_memory evm w_in isz w_out osz,
                         gas_left := g_after\<rparr>))"
      using call_steps_fail [OF st ch _ refund] by blast
    then show "call G process evm =
           Inr (evm\<lparr>stack := 0 # rest',
                    memory := extended_memory evm w_in isz w_out osz,
                    gas_left := g_after\<rparr>)"
      by (simp add: call_def)
    show "unat g_after = unat (charged_gas evm c) + unat (message_call_gas_fee c)"
      using refund by (auto simp: u256_add_Inr)
  }
  {
    assume bal: "\<not> balance (get_account (state (env evm)) (current_target (message evm))) < value_w"
      and lim: "depth (message evm) + 1 = STACK_DEPTH_LIMIT G"
    from call_steps_invoke [OF st ch bal] lim
    show "\<exists>e m k. call_steps G evm = Inr (Invoke e m k)
                \<and> depth m = STACK_DEPTH_LIMIT G
                \<and> call G process evm = bindE (process m (env e)) k"
      by (fastforce simp: call_def)
  }
next
  assume st: "stack evm = gas_w # to_w # value_w # w_in # isz # w_out # osz # rest'"
    and ch: "charged G evm (current_target (message evm)) gas_w value_w w_in isz w_out osz c'"
  {
    assume deep: "STACK_DEPTH_LIMIT G < depth (message evm) + 1"
      and refund: "u256_add (charged_gas evm c') (message_call_gas_fee c') = Inr g_after'"
    then show steps: "callcode_steps G evm =
           Inr (Done (evm\<lparr>stack := 0 # rest',
                         memory := extended_memory evm w_in isz w_out osz,
                         gas_left := g_after'\<rparr>))"
      using callcode_steps_fail [OF st ch _ refund] by blast
    then show "callcode G process evm =
           Inr (evm\<lparr>stack := 0 # rest',
                    memory := extended_memory evm w_in isz w_out osz,
                    gas_left := g_after'\<rparr>)"
      by (simp add: callcode_def)
    show "unat g_after' = unat (charged_gas evm c') + unat (message_call_gas_fee c')"
      using refund by (auto simp: u256_add_Inr)
  }
  {
    assume bal: "\<not> balance (get_account (state (env evm)) (current_target (message evm))) < value_w"
      and lim: "depth (message evm) + 1 = STACK_DEPTH_LIMIT G"
    from callcode_steps_invoke [OF st ch bal] lim
    show "\<exists>e m k. callcode_steps G evm = Inr (Invoke e m k)
                \<and> depth m = STACK_DEPTH_LIMIT G
                \<and> callcode G process evm = bindE (process m (env e)) k"
      by (fastforce simp: callcode_def)
  }
qed

text \<open>
  With the limit at 1024: at depth 1024 each handler pushes 0 without calling the
  raising interpreter (CALL and CALLCODE are left with 100000 - 5040 + 5000 gas); at
  depth 1023 each stands at the call with a child of depth 1024, and the
  interpreter's fatal condition propagates.
\<close>

theorem depth_guard_witness:
  "create sample_config raising_interpreter (sample_frame 1024 [10, 0, 4, 99])
     = Inr ((sample_frame 1024 [10, 0, 4, 99])\<lparr>stack := [0, 99], gas_left := 68000\<rparr>)
   \<and> (\<exists>e m k. create_steps sample_config (sample_frame 1023 [10, 0, 4, 99]) = Inr (Invoke e m k)
          \<and> depth m = 1024
          \<and> create sample_config raising_interpreter (sample_frame 1023 [10, 0, 4, 99])
              = Inl InterpreterError)
   \<and> call sample_config raising_interpreter (sample_frame 1024 [5000, 3, 0, 0, 4, 30, 2, 77])
       = Inr ((sample_frame 1024 [5000, 3, 0, 0, 4, 30, 2, 77])
                \<lparr>stack := [0, 77], gas_left := 99960\<rparr>)
   \<and> (\<exists>e m k. call_steps sample_config (sample_frame 1023 [5000, 3, 0, 0, 4, 30, 2, 77])
            = Inr (Invoke e m k)
          \<and> depth m = 1024
          \<and> call sample_config raising_interpreter
               (sample_frame 1023 [5000, 3, 0, 0, 4, 30, 2, 77]) = Inl InterpreterError)
   \<and> callcode sample_config raising_interpreter
         (sample_frame 1024 [5000, 3, 0, 0, 4, 30, 2, 77])
       = Inr ((sample_frame 1024 [5000, 3, 0, 0, 4, 30, 2, 77])
                \<lparr>stack := [0, 77], gas_left := 99960\<rparr>)
   \<and> (\<exists>e m k. callcode_steps sample_config (sample_frame 1023 [5000, 3, 0, 0, 4, 30, 2, 77])
            = Inr (Invoke e m k)
          \<and> depth m = 1024
          \<and> callcode sample_config raising_interpreter
               (sample_frame 1023 [5000, 3, 0, 0, 4, 30, 2, 77]) = Inl InterpreterError)"
proof -
  let ?c = "\<lparr>call_gas_fee = 5040, message_call_gas_fee = 5000,
             gas_input_memory = 0, gas_output_memory = 0\<rparr>"
  have a: "create sample_config raising_interpreter (sample_frame 1024 [10, 0, 4, 99])
     = Inr ((sample_frame 1024 [10, 0, 4, 99])\<lparr>stack := [0, 99], gas_left := 68000\<rparr>)"
    using depth_guard [where evm = "sample_frame 1024 [10, 0, 4, 99]"
        and G = sample_config and endowment = 10 and w_start = 0 and memory_size = 4
        and rest = "[99]" and extend_cost = 0 and process = raising_interpreter,
        THEN conjunct1]
    by (simp add: sample_eval)
  have b: "\<exists>e m k. create_steps sample_config (sample_frame 1023 [10, 0, 4, 99]) = Inr (Invoke e m k)
          \<and> depth m = 1024
          \<and> create sample_config raising_interpreter (sample_frame 1023 [10, 0, 4, 99])
              = Inl InterpreterError"
    using depth_guard [where evm = "sample_frame 1023 [10, 0, 4, 99]"
        and G = sample_config and endowment = 10 and w_start = 0 and memory_size = 4
        and rest = "[99]" and extend_cost = 0 and process = raising_interpreter,
        THEN conjunct1]
    by (simp add: sample_eval)
  have c: "call sample_config raising_interpreter (sample_frame 1024 [5000, 3, 0, 0, 4, 30, 2, 77])
       = Inr ((sample_frame 1024 [5000, 3, 0, 0, 4, 30, 2, 77])
                \<lparr>stack := [0, 77], gas_left := 99960\<rparr>)"
    using depth_guard [where evm = "sample_frame 1024 [5000, 3, 0, 0, 4, 30, 2, 77]"
        and G = sample_config and gas_w = 5000 and to_w = 3 and value_w = 0 and w_in = 0
        and isz = 4 and w_out = 30 and osz = 2 and rest' = "[77]" and c = ?c and g_after = 99960
        and process = raising_interpreter,
        THEN conjunct2, THEN conjunct1]
    by (simp add: sample_eval)
  have d: "\<exists>e m k. call_steps sample_config (sample_frame 1023 [5000, 3, 0, 0, 4, 30, 2, 77])
            = Inr (Invoke e m k)
          \<and> depth m = 1024
          \<and> call sample_config raising_interpreter
               (sample_frame 1023 [5000, 3, 0, 0, 4, 30, 2, 77]) = Inl InterpreterError"
    using depth_guard [where evm = "sample_frame 1023 [5000, 3, 0, 0, 4, 30, 2, 77]"
        and G = sample_config and gas_w = 5000 and to_w = 3 and value_w = 0 and w_in = 0
        and isz = 4 and w_out = 30 and osz = 2 and rest' = "[77]" and c = ?c and g_after = 99960
        and process = raising_interpreter,
        THEN conjunct2, THEN conjunct1]
    by (simp add: sample_eval)
  have e: "callcode sample_config raising_interpreter
         (sample_frame 1024 [5000, 3, 0, 0, 4, 30, 2, 77])
       = Inr ((sample_frame 1024 [5000, 3, 0, 0, 4, 30, 2, 77])
                \<lparr>stack := [0, 77], gas_left := 99960\<rparr>)"
    using depth_guard [where evm = "sample_frame 1024 [5000, 3, 0, 0, 4, 30, 2, 77]"
        and G = sample_config and gas_w = 5000 and to_w = 3 and value_w = 0 and w_in = 0
        and isz = 4 and w_out = 30 and osz = 2 and rest' = "[77]" and c' = ?c and g_after' = 99960
        and process = raising_interpreter,
        THEN conjunct2, THEN conjunct2]
    by (simp add: sample_eval)
  have f: "\<exists>e m k. callcode_steps sample_config (sample_frame 1023 [5000, 3, 0, 0, 4, 30, 2, 77])
            = Inr (Invoke e m k)
          \<and> depth m = 1024
          \<and> callcode sample_config raising_interpreter
               (sample_frame 1023 [5000, 3, 0, 0, 4, 30, 2, 77]) = Inl InterpreterError"
    using depth_guard [where evm = "sample_frame 1023 [5000, 3, 0, 0, 4, 30, 2, 77]"
        and G = sample_config and gas_w = 5000 and to_w = 3 and value_w = 0 and w_in = 0
        and isz = 4 and w_out = 30 and osz = 2 and rest' = "[77]" and c' = ?c and g_after' = 99960
        and process = raising_interpreter,
        THEN conjunct2, THEN conjunct2]
    by (simp add: sample_eval)
  from a b c d e f show ?thesis
    by blast
qed

section \<open>CALL and CALLCODE with insufficient balance\<close>

text \<open>
  Claim C1, as amended. For every CALL or CALLCODE whose pops and gas charges
  succeed and where the balance of the frame's own current account is less than
  the popped value: exactly one word, 0, is pushed; the result is the same for
  every interpreter (the recursive message processing is not invoked); and
  message_call_gas_fee (the popped gas plus the value stipend) is added to the
  parent's gas_left, so that gas_left after the attempt equals gas_left right after
  the initial charges plus message_call_gas_fee, provided that this sum fits a
  word.
\<close>

theorem insufficient_balance_refund:
  "(stack evm = gas_w # to_w # value_w # w_in # isz # w_out # osz # rest
      \<and> charged G evm (to_address to_w) gas_w value_w w_in isz w_out osz c
      \<and> balance (get_account (state (env evm)) (current_target (message evm))) < value_w
      \<and> u256_add (charged_gas evm c) (message_call_gas_fee c) = Inr g_after \<longrightarrow>
      call_steps G evm =
        Inr (Done (evm\<lparr>stack := 0 # rest,
                      memory := extended_memory evm w_in isz w_out osz,
                      gas_left := g_after\<rparr>))
    \<and> call G process_message evm =
        Inr (evm\<lparr>stack := 0 # rest,
                 memory := extended_memory evm w_in isz w_out osz,
                 gas_left := g_after\<rparr>)
    \<and> unat g_after = unat (charged_gas evm c) + unat (message_call_gas_fee c)
    \<and> unat (message_call_gas_fee c)
        = unat gas_w + unat (calculate_message_call_gas_stipend G value_w))
   \<and> (stack evm = gas_w # to_w # value_w # w_in # isz # w_out # osz # rest
      \<and> charged G evm (current_target (message evm)) gas_w value_w w_in isz w_out osz c'
      \<and> balance (get_account (state (env evm)) (current_target (message evm))) < value_w
      \<and> u256_add (charged_gas evm c') (message_call_gas_fee c') = Inr g_after' \<longrightarrow>
      callcode_steps G evm =
        Inr (Done (evm\<lparr>stack := 0 # rest,
                      memory := extended_memory evm w_in isz w_out osz,
                      gas_left := g_after'\<rparr>))
    \<and> callcode G process_message evm =
        Inr (evm\<lparr>stack := 0 # rest,
                 memory := extended_memory evm w_in isz w_out osz,
                 gas_left := g_after'\<rparr>)
    \<and> unat g_after' = unat (charged_gas evm c') + unat (message_call_gas_fee c')
    \<and> unat (message_call_gas_fee c')
        = unat gas_w + unat (calculate_message_call_gas_stipend G value_w))"
proof (intro conjI impI; elim conjE)
  assume st: "stack evm = gas_w # to_w # value_w # w_in # isz # w_out # osz # rest"
    and ch: "charged G evm (to_address to_w) gas_w value_w w_in isz w_out osz c"
    and poor: "balance (get_account (state (env evm)) (current_target (message evm))) < value_w"
    and refund: "u256_add (charged_gas evm c) (message_call_gas_fee c) = Inr g_after"
  show steps: "call_steps G evm =
        Inr (Done (evm\<lparr>stack := 0 # rest,
                      memory := extended_memory evm w_in isz w_out osz,
                      gas_left := g_after\<rparr>))"
    using call_steps_fail [OF st ch _ refund] poor by blast
  then show "call G process_message evm =
        Inr (evm\<lparr>stack := 0 # rest,
                 memory := extended_memory evm w_in isz w_out osz,
                 gas_left := g_after\<rparr>)"
    by (simp add: call_def)
  show "unat g_after = unat (charged_gas evm c) + unat (message_call_gas_fee c)"
    using refund by (auto simp: u256_add_Inr)
  show "unat (message_call_gas_fee c)
        = unat gas_w + unat (calculate_message_call_gas_stipend G value_w)"
    using ch by (auto simp: charged_def u256_add_Inr)
next
  assume st: "stack evm = gas_w # to_w # value_w # w_in # isz # w_out # osz # rest"
    and ch: "charged G evm (current_target (message evm)) gas_w value_w w_in isz w_out osz c'"
    and poor: "balance (get_account (state (env evm)) (current_target (message evm))) < value_w"
    and refund: "u256_add (charged_gas evm c') (message_call_gas_fee c') = Inr g_after'"
  show steps: "callcode_steps G evm =
        Inr (Done (evm\<lparr>stack := 0 # rest,
                      memory := extended_memory evm w_in isz w_out osz,
                      gas_left := g_after'\<rparr>))"
    using callcode_steps_fail [OF st ch _ refund] poor by blast
  then show "callcode G process_message evm =
        Inr (evm\<lparr>stack := 0 # rest,
                 memory := extended_memory evm w_in isz w_out osz,
                 gas_left := g_after'\<rparr>)"
    by (simp add: callcode_def)
  show "unat g_after' = unat (charged_gas evm c') + unat (message_call_gas_fee c')"
    using refund by (auto simp: u256_add_Inr)
  show "unat (message_call_gas_fee c')
        = unat gas_w + unat (calculate_message_call_gas_stipend G value_w)"
    using ch by (auto simp: charged_def u256_add_Inr)
qed

text \<open>
  Account 2 holds 5 and sends 10 with 5 gas: the cost of the call is
  40 + 5 + 9000, the child would get 5 + 2300; 0 is pushed and the frame is left
  with 100000 - 9045 + 2305 gas.
\<close>

theorem insufficient_balance_refund_witness:
  "balance (get_account sample_state 2) = 5
   \<and> call sample_config raising_interpreter (sample_frame 0 [5, 3, 10, 0, 4, 30, 2, 77])
       = Inr ((sample_frame 0 [5, 3, 10, 0, 4, 30, 2, 77])\<lparr>stack := [0, 77], gas_left := 93260\<rparr>)
   \<and> callcode sample_config raising_interpreter (sample_frame 0 [5, 3, 10, 0, 4, 30, 2, 77])
       = Inr ((sample_frame 0 [5, 3, 10, 0, 4, 30, 2, 77])\<lparr>stack := [0, 77], gas_left := 93260\<rparr>)"
proof -
  let ?c = "\<lparr>call_gas_fee = 9045, message_call_gas_fee = 2305,
             gas_input_memory = 0, gas_output_memory = 0\<rparr>"
  have a: "call sample_config raising_interpreter (sample_frame 0 [5, 3, 10, 0, 4, 30, 2, 77])
       = Inr ((sample_frame 0 [5, 3, 10, 0, 4, 30, 2, 77])\<lparr>stack := [0, 77], gas_left := 93260\<rparr>)"
    using insufficient_balance_refund [where evm = "sample_frame 0 [5, 3, 10, 0, 4, 30, 2, 77]"
        and G = sample_config and gas_w = 5 and to_w = 3 and value_w = 10 and w_in = 0
        and isz = 4 and w_out = 30 and osz = 2 and rest = "[77]" and c = ?c
        and g_after = 93260 and process_message = raising_interpreter,
        THEN conjunct1]
    by (simp add: sample_eval)
  have b: "callcode sample_config raising_interpreter (sample_frame 0 [5, 3, 10, 0, 4, 30, 2, 77])
       = Inr ((sample_frame 0 [5, 3, 10, 0, 4, 30, 2, 77])\<lparr>stack := [0, 77], gas_left := 93260\<rparr>)"
    using insufficient_balance_refund [where evm = "sample_frame 0 [5, 3, 10, 0, 4, 30, 2, 77]"
        and G = sample_config and gas_w = 5 and to_w = 3 and value_w = 10 and w_in = 0
        and isz = 4 and w_out = 30 and osz = 2 and rest = "[77]" and c' = ?c
        and g_after' = 93260 and process_message = raising_interpreter,
        THEN conjunct2]
    by (simp add: sample_eval)
  have "balance (get_account sample_state 2) = 5"
    by (simp add: sample_state_def get_account_def)
  with a b show ?thesis
    by blast
qed

text \<open>
  The claim as stated, that gas_left after the attempt equals gas_left right after
  the initial charges (a net effect of minus call_gas_fee only), fails on this
  frame: after the charges gas_left is 90955, after the attempt it is 93260.
\<close>

theorem insufficient_balance_counterexample:
  "charged sample_config (sample_frame 0 [5, 3, 10, 0, 4, 30, 2, 77]) (to_address 3) 5 10 0 4 30 2
     \<lparr>call_gas_fee = 9045, message_call_gas_fee = 2305,
      gas_input_memory = 0, gas_output_memory = 0\<rparr>
   \<and> balance (get_account (state (env (sample_frame 0 [5, 3, 10, 0, 4, 30, 2, 77])))
        (current_target (message (sample_frame 0 [5, 3, 10, 0, 4, 30, 2, 77])))) < 10
   \<and> charged_gas (sample_frame 0 [5, 3, 10, 0, 4, 30, 2, 77])
        \<lparr>call_gas_fee = 9045, message_call_gas_fee = 2305,
         gas_input_memory = 0, gas_output_memory = 0\<rparr> = 90955
   \<and> call sample_config raising_interpreter (sample_frame 0 [5, 3, 10, 0, 4, 30, 2, 77])
       = Inr ((sample_frame 0 [5, 3, 10, 0, 4, 30, 2, 77])\<lparr>stack := [0, 77], gas_left := 93260\<rparr>)
   \<and> gas_left ((sample_frame 0 [5, 3, 10, 0, 4, 30, 2, 77])\<lparr>stack := [0, 77], gas_left := 93260\<rparr>)
       \<noteq> 90955
   \<and> gas_left ((sample_frame 0 [5, 3, 10, 0, 4, 30, 2, 77])\<lparr>stack := [0, 77], gas_left := 93260\<rparr>)
       \<noteq> gas_left (sample_frame 0 [5, 3, 10, 0, 4, 30, 2, 77]) - 9045"
  by (simp add: call_def call_steps_def resume_def push_def memory_read_bytes_def
        subtract_gas_def sample_eval)

section \<open>A local failure keeps the memory extension and the charges\<close>

lemma extended_memory_covers:
  "length (memory evm) \<le> length (extended_memory evm w_in isz w_out osz)"
  "isz \<noteq> 0 \<Longrightarrow> Uint w_in + unat isz \<le> length (extended_memory evm w_in isz w_out osz)"
  "osz \<noteq> 0 \<Longrightarrow> Uint w_out + unat osz \<le> length (extended_memory evm w_in isz w_out osz)"
  "take (length (memory evm)) (extended_memory evm w_in isz w_out osz) = memory evm"
proof -
  let ?m1 = "extend_memory (memory evm) (Uint w_in) isz"
  have 1: "length (memory evm) \<le> length ?m1"
    by (rule length_extend_memory)
  have 2: "length ?m1 \<le> length (extend_memory ?m1 (Uint w_out) osz)"
    by (rule length_extend_memory)
  show "length (memory evm) \<le> length (extended_memory evm w_in isz w_out osz)"
    using 1 2 by (simp add: extended_memory_def)
  show "Uint w_in + unat isz \<le> length (extended_memory evm w_in isz w_out osz)" if "isz \<noteq> 0"
    using extend_memory_covers [OF that, of "Uint w_in" "memory evm"] 2
    by (simp add: extended_memory_def)
  show "Uint w_out + unat osz \<le> length (extended_memory evm w_in isz w_out osz)" if "osz \<noteq> 0"
    using extend_memory_covers [OF that, of "Uint w_out" ?m1]
    by (simp add: extended_memory_def)
  have "take (length (memory evm)) (extend_memory ?m1 (Uint w_out) osz)
          = take (length (memory evm)) (take (length ?m1) (extend_memory ?m1 (Uint w_out) osz))"
    using 1 by (simp add: min_def)
  also have "\<dots> = take (length (memory evm)) ?m1"
    by (simp only: extend_memory_prefix)
  also have "\<dots> = memory evm"
    by (rule extend_memory_prefix)
  finally show "take (length (memory evm)) (extended_memory evm w_in isz w_out osz) = memory evm"
    by (simp add: extended_memory_def)
qed

lemma failure_frame_facts:
  assumes ch: "charged G evm to gas_w value_w w_in isz w_out osz c"
    and refund: "u256_add (charged_gas evm c) (message_call_gas_fee c) = Inr g_after"
  shows "unat g_after + unat (call_gas_fee c) + unat (gas_input_memory c)
           + unat (gas_output_memory c)
         = unat (gas_left evm) + unat (message_call_gas_fee c)"
proof -
  have le: "unat (call_gas_fee c) + unat (gas_input_memory c) + unat (gas_output_memory c)
              \<le> unat (gas_left evm)"
    using ch by (simp add: charged_def)
  have "unat g_after = unat (charged_gas evm c) + unat (message_call_gas_fee c)"
    using refund by (auto simp: u256_add_Inr)
  with charged_chain(4) [OF ch] le show ?thesis
    by simp
qed

text \<open>
  Claim C10. For every CALL or CALLCODE that takes a local failure path
  (insufficient balance or depth exceeded), the frame the handler returns has its
  memory extended over the input region and the output region (the old memory is
  a prefix of it), and its gas_left is the initial one less call_gas_fee and both
  memory-extension fees, plus the refund of message_call_gas_fee: neither the
  extension nor the charges are reversed.
\<close>

theorem failure_keeps_memory_and_charges:
  "(stack evm = gas_w # to_w # value_w # w_in # isz # w_out # osz # rest
      \<and> charged G evm (to_address to_w) gas_w value_w w_in isz w_out osz c
      \<and> (balance (get_account (state (env evm)) (current_target (message evm))) < value_w
          \<or> STACK_DEPTH_LIMIT G < depth (message evm) + 1)
      \<and> u256_add (charged_gas evm c) (message_call_gas_fee c) = Inr g_after \<longrightarrow>
      (\<exists>r. call G process_message evm = Inr r
         \<and> memory r = extended_memory evm w_in isz w_out osz
         \<and> length (memory evm) \<le> length (memory r)
         \<and> take (length (memory evm)) (memory r) = memory evm
         \<and> (isz \<noteq> 0 \<longrightarrow> Uint w_in + unat isz \<le> length (memory r))
         \<and> (osz \<noteq> 0 \<longrightarrow> Uint w_out + unat osz \<le> length (memory r))
         \<and> unat (gas_left r) + unat (call_gas_fee c) + unat (gas_input_memory c)
             + unat (gas_output_memory c)
           = unat (gas_left evm) + unat (message_call_gas_fee c)))
   \<and> (stack evm = gas_w # to_w # value_w # w_in # isz # w_out # osz # rest
      \<and> charged G evm (current_target (message evm)) gas_w value_w w_in isz w_out osz c'
      \<and> (balance (get_account (state (env evm)) (current_target (message evm))) < value_w
          \<or> STACK_DEPTH_LIMIT G < depth (message evm) + 1)
      \<and> u256_add (charged_gas evm c') (message_call_gas_fee c') = Inr g_after' \<longrightarrow>
      (\<exists>r. callcode G process_message evm = Inr r
         \<and> memory r = extended_memory evm w_in isz w_out osz
         \<and> length (memory evm) \<le> length (memory r)
         \<and> take (length (memory evm)) (memory r) = memory evm
         \<and> (isz \<noteq> 0 \<longrightarrow> Uint w_in + unat isz \<le> length (memory r))
         \<and> (osz \<noteq> 0 \<longrightarrow> Uint w_out + unat osz \<le> length (memory r))
         \<and> unat (gas_left r) + unat (call_gas_fee c') + unat (gas_input_memory c')
             + unat (gas_output_memory c')
           = unat (gas_left evm) + unat (message_call_gas_fee c')))"
proof (intro conjI impI; elim conjE)
  assume st: "stack evm = gas_w # to_w # value_w # w_in # isz # w_out # osz # rest"
    and ch: "charged G evm (to_address to_w) gas_w value_w w_in isz w_out osz c"
    and fail: "balance (get_account (state (env evm)) (current_target (message evm))) < value_w
          \<or> STACK_DEPTH_LIMIT G < depth (message evm) + 1"
    and refund: "u256_add (charged_gas evm c) (message_call_gas_fee c) = Inr g_after"
  have "call G process_message evm =
        Inr (evm\<lparr>stack := 0 # rest,
                 memory := extended_memory evm w_in isz w_out osz,
                 gas_left := g_after\<rparr>)"
    by (simp add: call_def call_steps_fail [OF st ch fail refund])
  then show "\<exists>r. call G process_message evm = Inr r
         \<and> memory r = extended_memory evm w_in isz w_out osz
         \<and> length (memory evm) \<le> length (memory r)
         \<and> take (length (memory evm)) (memory r) = memory evm
         \<and> (isz \<noteq> 0 \<longrightarrow> Uint w_in + unat isz \<le> length (memory r))
         \<and> (osz \<noteq> 0 \<longrightarrow> Uint w_out + unat osz \<le> length (memory r))
         \<and> unat (gas_left r) + unat (call_gas_fee c) + unat (gas_input_memory c)
             + unat (gas_output_memory c)
           = unat (gas_left evm) + unat (message_call_gas_fee c)"
    using failure_frame_facts [OF ch refund]
    by (simp add: extended_memory_covers)
next
  assume st: "stack evm = gas_w # to_w # value_w # w_in # isz # w_out # osz # rest"
    and ch: "charged G evm (current_target (message evm)) gas_w value_w w_in isz w_out osz c'"
    and fail: "balance (get_account (state (env evm)) (current_target (message evm))) < value_w
          \<or> STACK_DEPTH_LIMIT G < depth (message evm) + 1"
    and refund: "u256_add (charged_gas evm c') (message_call_gas_fee c') = Inr g_after'"
  have "callcode G process_message evm =
        Inr (evm\<lparr>stack := 0 # rest,
                 memory := extended_memory evm w_in isz w_out osz,
                 gas_left := g_after'\<rparr>)"
    by (simp add: callcode_def callcode_steps_fail [OF st ch fail refund])
  then show "\<exists>r. callcode G process_message evm = Inr r
         \<and> memory r = extended_memory evm w_in isz w_out osz
         \<and> length (memory evm) \<le> length (memory r)
         \<and> take (length (memory evm)) (memory r) = memory evm
         \<and> (isz \<noteq> 0 \<longrightarrow> Uint w_in + unat isz \<le> length (memory r))
         \<and> (osz \<noteq> 0 \<longrightarrow> Uint w_out + unat osz \<le> length (memory r))
         \<and> unat (gas_left r) + unat (call_gas_fee c') + unat (gas_input_memory c')
             + unat (gas_output_memory c')
           = unat (gas_left evm) + unat (message_call_gas_fee c')"
    using failure_frame_facts [OF ch refund]
    by (simp add: extended_memory_covers)
qed

text \<open>
  A call of value 10 from the account that holds 5, input region [40, 44), output
  region [100, 102), on 32 bytes of memory: the frame fails locally with 128 bytes
  of memory and 100000 - 9045 - 3 - 6 + 2305 gas.
\<close>

theorem failure_keeps_memory_and_charges_witness:
  "length (memory (sample_frame 0 [5, 3, 10, 40, 4, 100, 2, 77])) = 32
   \<and> (\<exists>r. call sample_config raising_interpreter (sample_frame 0 [5, 3, 10, 40, 4, 100, 2, 77])
            = Inr r
        \<and> length (memory r) = 128 \<and> unat (gas_left r) = 93251)
   \<and> (\<exists>r. callcode sample_config raising_interpreter
              (sample_frame 0 [5, 3, 10, 40, 4, 100, 2, 77]) = Inr r
        \<and> length (memory r) = 128 \<and> unat (gas_left r) = 93251)"
proof -
  let ?c = "\<lparr>call_gas_fee = 9045, message_call_gas_fee = 2305,
             gas_input_memory = 3, gas_output_memory = 6\<rparr>"
  have a: "\<exists>r. call sample_config raising_interpreter (sample_frame 0 [5, 3, 10, 40, 4, 100, 2, 77])
            = Inr r
        \<and> length (memory r) = 128 \<and> unat (gas_left r) = 93251"
    using failure_keeps_memory_and_charges
      [where evm = "sample_frame 0 [5, 3, 10, 40, 4, 100, 2, 77]"
        and G = sample_config and gas_w = 5 and to_w = 3 and value_w = 10 and w_in = 40
        and isz = 4 and w_out = 100 and osz = 2 and rest = "[77]" and c = ?c
        and g_after = 93251 and process_message = raising_interpreter,
        THEN conjunct1]
    by (fastforce simp: sample_eval)
  have b: "\<exists>r. callcode sample_config raising_interpreter
              (sample_frame 0 [5, 3, 10, 40, 4, 100, 2, 77]) = Inr r
        \<and> length (memory r) = 128 \<and> unat (gas_left r) = 93251"
    using failure_keeps_memory_and_charges
      [where evm = "sample_frame 0 [5, 3, 10, 40, 4, 100, 2, 77]"
        and G = sample_config and gas_w = 5 and to_w = 3 and value_w = 10 and w_in = 40
        and isz = 4 and w_out = 100 and osz = 2 and rest = "[77]" and c' = ?c
        and g_after' = 93251 and process_message = raising_interpreter,
        THEN conjunct2]
    by (fastforce simp: sample_eval)
  have "length (memory (sample_frame 0 [5, 3, 10, 40, 4, 100, 2, 77])) = 32"
    by (simp add: sample_defs)
  with a b show ?thesis
    by blast
qed

section \<open>The child frame is merged into the parent\<close>

lemma U256_Inr: "U256 n = Inr w \<longleftrightarrow> n < 2 ^ 256 \<and> w = of_nat n"
  by (auto simp: U256_def split: if_splits)

lemma unat_U256: "U256 n = Inr w \<Longrightarrow> unat w = n"
  by (auto simp: U256_def unat_of_nat split: if_splits)

lemma unat_min: "unat (min a b) = min (unat a) (unat b)" for a b :: u256
  by (simp add: min_def word_le_nat_alt)

lemma memory_write_length:
  "start + length v \<le> length mem \<Longrightarrow> length (memory_write mem start v) = length mem"
  by (simp add: memory_write_def)

lemma memory_write_nth_written:
  "start + length v \<le> length mem \<Longrightarrow> i < length v \<Longrightarrow>
   memory_write mem start v ! (start + i) = v ! i"
  by (simp add: memory_write_def nth_append)

lemma memory_write_nth_other:
  "start + length v \<le> length mem \<Longrightarrow> j < length mem \<Longrightarrow>
   j < start \<or> start + length v \<le> j \<Longrightarrow>
   memory_write mem start v ! j = mem ! j"
  by (auto simp: memory_write_def nth_append)

lemma memory_write_empty: "memory_write mem start [] = mem"
  by (simp add: memory_write_def)

lemma bindE_eq_Inr: "bindE m f = Inr y \<longleftrightarrow> (\<exists>x. m = Inr x \<and> f x = Inr y)"
  by (cases m) simp_all

lemma memory_write_region:
  assumes "v = [] \<or> start + length v \<le> length mem"
  shows "length (memory_write mem start v) = length mem"
    and "\<forall>i < length v. memory_write mem start v ! (start + i) = v ! i"
    and "\<forall>j < length mem. j < start \<or> start + length v \<le> j \<longrightarrow>
           memory_write mem start v ! j = mem ! j"
  using assms
  by (auto simp: memory_write_empty memory_write_length memory_write_nth_written
        memory_write_nth_other)

lemma merge_child:
  fixes g :: u256
  assumes k: "k (child_evm, env') =
                 bindE (U256 (length (output child_evm))) (\<lambda>output_length.
                 bindE (u256_add g (gas_left child_evm)) (\<lambda>g4.
                 Inr (evm\<lparr>stack := 1 # rest,
                          memory :=
                            memory_write mem (Uint w_out)
                              (take (unat (min osz output_length)) (output child_evm)),
                          gas_left := g4,
                          env := env'\<rparr>)))"
    and cov: "osz \<noteq> 0 \<Longrightarrow> Uint w_out + unat osz \<le> length mem"
  shows "k (child_evm, env') = Inr r \<longrightarrow>
           stack r = 1 # rest
         \<and> memory r = memory_write mem (Uint w_out)
                         (take (min (unat osz) (length (output child_evm))) (output child_evm))
         \<and> length (memory r) = length mem
         \<and> (\<forall>i < min (unat osz) (length (output child_evm)).
               memory r ! (Uint w_out + i) = output child_evm ! i)
         \<and> (\<forall>j < length mem.
               j < Uint w_out \<or> Uint w_out + min (unat osz) (length (output child_evm)) \<le> j \<longrightarrow>
               memory r ! j = mem ! j)
         \<and> unat (gas_left r) = unat g + unat (gas_left child_evm)
         \<and> env r = env'"
    and "length (output child_evm) < 2 ^ 256 \<and> unat g + unat (gas_left child_evm) < 2 ^ 256
           \<longrightarrow> (\<exists>r. k (child_evm, env') = Inr r)"
proof -
  let ?out = "output child_evm"
  let ?n = "min (unat osz) (length ?out)"
  let ?v = "take ?n ?out"
  have len: "length ?v = ?n"
    by simp
  have "?v = [] \<or> Uint w_out + length ?v \<le> length mem"
  proof (cases "osz = 0")
    case True
    then show ?thesis by simp
  next
    case False
    from cov [OF this] show ?thesis by (auto simp: min_def)
  qed
  note region = memory_write_region [OF this]
  show "k (child_evm, env') = Inr r \<longrightarrow>
           stack r = 1 # rest
         \<and> memory r = memory_write mem (Uint w_out) ?v
         \<and> length (memory r) = length mem
         \<and> (\<forall>i < ?n. memory r ! (Uint w_out + i) = ?out ! i)
         \<and> (\<forall>j < length mem. j < Uint w_out \<or> Uint w_out + ?n \<le> j \<longrightarrow> memory r ! j = mem ! j)
         \<and> unat (gas_left r) = unat g + unat (gas_left child_evm)
         \<and> env r = env'"
  proof
    assume "k (child_evm, env') = Inr r"
    then obtain output_length g4 where n: "U256 (length ?out) = Inr output_length"
      and g: "u256_add g (gas_left child_evm) = Inr g4"
      and r: "r = evm\<lparr>stack := 1 # rest,
                       memory := memory_write mem (Uint w_out)
                                   (take (unat (min osz output_length)) ?out),
                       gas_left := g4,
                       env := env'\<rparr>"
      unfolding k bindE_eq_Inr by auto
    have m: "unat (min osz output_length) = ?n"
      using unat_U256 [OF n] by (simp add: unat_min)
    have mem: "memory r = memory_write mem (Uint w_out) ?v"
      by (simp add: r m)
    have gas: "unat (gas_left r) = unat g + unat (gas_left child_evm)"
      using g by (auto simp: r u256_add_Inr)
    show "stack r = 1 # rest
         \<and> memory r = memory_write mem (Uint w_out) ?v
         \<and> length (memory r) = length mem
         \<and> (\<forall>i < ?n. memory r ! (Uint w_out + i) = ?out ! i)
         \<and> (\<forall>j < length mem. j < Uint w_out \<or> Uint w_out + ?n \<le> j \<longrightarrow> memory r ! j = mem ! j)
         \<and> unat (gas_left r) = unat g + unat (gas_left child_evm)
         \<and> env r = env'"
      using region gas unfolding mem len by (simp add: r)
  qed
  show "length ?out < 2 ^ 256 \<and> unat g + unat (gas_left child_evm) < 2 ^ 256
           \<longrightarrow> (\<exists>r. k (child_evm, env') = Inr r)"
    by (simp add: k U256_def u256_add_def)
qed

text \<open>
  Claim C6. For every CALL or CALLCODE that reaches the recursive invocation
  (the child is given message_call_gas_fee) and for which the interpreter returns a
  terminal child frame: whenever the handler returns, it has pushed the word 1,
  whatever the child frame is; it has copied exactly min(memory_output_size, length
  of the child's output) bytes of the child's output into the parent's memory from
  memory_output_start on, leaving the length and every other byte of the memory
  unchanged; and the parent's gas_left is its gas_left after the charges plus the
  child's gas_left. The handler does return when the merged gas fits a word.
\<close>

theorem child_frame_merged:
  "(stack evm = gas_w # to_w # value_w # w_in # isz # w_out # osz # rest
      \<and> charged G evm (to_address to_w) gas_w value_w w_in isz w_out osz c
      \<and> \<not> balance (get_account (state (env evm)) (current_target (message evm))) < value_w
      \<and> depth (message evm) + 1 \<le> STACK_DEPTH_LIMIT G \<longrightarrow>
      (\<exists>e m k.
          call_steps G evm = Inr (Invoke e m k)
        \<and> gas m = message_call_gas_fee c
        \<and> (\<forall>child_evm env' r.
              process_message m (env e) = Inr (child_evm, env')
              \<and> call G process_message evm = Inr r \<longrightarrow>
                stack r = 1 # rest
              \<and> memory r =
                  memory_write (extended_memory evm w_in isz w_out osz) (Uint w_out)
                    (take (min (unat osz) (length (output child_evm))) (output child_evm))
              \<and> length (memory r) = length (extended_memory evm w_in isz w_out osz)
              \<and> (\<forall>i < min (unat osz) (length (output child_evm)).
                    memory r ! (Uint w_out + i) = output child_evm ! i)
              \<and> (\<forall>j < length (extended_memory evm w_in isz w_out osz).
                    j < Uint w_out
                    \<or> Uint w_out + min (unat osz) (length (output child_evm)) \<le> j \<longrightarrow>
                    memory r ! j = extended_memory evm w_in isz w_out osz ! j)
              \<and> unat (gas_left r) = unat (charged_gas evm c) + unat (gas_left child_evm)
              \<and> env r = env')
        \<and> (\<forall>child_evm env'.
              process_message m (env e) = Inr (child_evm, env')
              \<and> length (output child_evm) < 2 ^ 256
              \<and> unat (charged_gas evm c) + unat (gas_left child_evm) < 2 ^ 256 \<longrightarrow>
              (\<exists>r. call G process_message evm = Inr r))))
   \<and> (stack evm = gas_w # to_w # value_w # w_in # isz # w_out # osz # rest
      \<and> charged G evm (current_target (message evm)) gas_w value_w w_in isz w_out osz c'
      \<and> \<not> balance (get_account (state (env evm)) (current_target (message evm))) < value_w
      \<and> depth (message evm) + 1 \<le> STACK_DEPTH_LIMIT G \<longrightarrow>
      (\<exists>e m k.
          callcode_steps G evm = Inr (Invoke e m k)
        \<and> gas m = message_call_gas_fee c'
        \<and> (\<forall>child_evm env' r.
              process_message m (env e) = Inr (child_evm, env')
              \<and> callcode G process_message evm = Inr r \<longrightarrow>
                stack r = 1 # rest
              \<and> memory r =
                  memory_write (extended_memory evm w_in isz w_out osz) (Uint w_out)
                    (take (min (unat osz) (length (output child_evm))) (output child_evm))
              \<and> length (memory r) = length (extended_memory evm w_in isz w_out osz)
              \<and> (\<forall>i < min (unat osz) (length (output child_evm)).
                    memory r ! (Uint w_out + i) = output child_evm ! i)
              \<and> (\<forall>j < length (extended_memory evm w_in isz w_out osz).
                    j < Uint w_out
                    \<or> Uint w_out + min (unat osz) (length (output child_evm)) \<le> j \<longrightarrow>
                    memory r ! j = extended_memory evm w_in isz w_out osz ! j)
              \<and> unat (gas_left r) = unat (charged_gas evm c') + unat (gas_left child_evm)
              \<and> env r = env')
        \<and> (\<forall>child_evm env'.
              process_message m (env e) = Inr (child_evm, env')
              \<and> length (output child_evm) < 2 ^ 256
              \<and> unat (charged_gas evm c') + unat (gas_left child_evm) < 2 ^ 256 \<longrightarrow>
              (\<exists>r. callcode G process_message evm = Inr r))))"
proof (intro conjI impI; elim conjE)
  assume st: "stack evm = gas_w # to_w # value_w # w_in # isz # w_out # osz # rest"
    and ch: "charged G evm (to_address to_w) gas_w value_w w_in isz w_out osz c"
    and bal: "\<not> balance (get_account (state (env evm)) (current_target (message evm))) < value_w"
    and dep: "depth (message evm) + 1 \<le> STACK_DEPTH_LIMIT G"
  from call_steps_invoke [OF st ch bal dep] obtain e m k
    where steps: "call_steps G evm = Inr (Invoke e m k)"
      and gm: "gas m = message_call_gas_fee c"
      and k: "\<And>child_evm env'.
               k (child_evm, env') =
                 bindE (U256 (length (output child_evm))) (\<lambda>output_length.
                 bindE (u256_add (charged_gas evm c) (gas_left child_evm)) (\<lambda>g4.
                 Inr (evm\<lparr>stack := 1 # rest,
                          memory :=
                            memory_write (extended_memory evm w_in isz w_out osz) (Uint w_out)
                              (take (unat (min osz output_length)) (output child_evm)),
                          gas_left := g4,
                          env := env'\<rparr>)))"
    by force
  have run: "call G process_message evm = bindE (process_message m (env e)) k"
    by (simp add: call_def steps)
  show "\<exists>e m k.
          call_steps G evm = Inr (Invoke e m k)
        \<and> gas m = message_call_gas_fee c
        \<and> (\<forall>child_evm env' r.
              process_message m (env e) = Inr (child_evm, env')
              \<and> call G process_message evm = Inr r \<longrightarrow>
                stack r = 1 # rest
              \<and> memory r =
                  memory_write (extended_memory evm w_in isz w_out osz) (Uint w_out)
                    (take (min (unat osz) (length (output child_evm))) (output child_evm))
              \<and> length (memory r) = length (extended_memory evm w_in isz w_out osz)
              \<and> (\<forall>i < min (unat osz) (length (output child_evm)).
                    memory r ! (Uint w_out + i) = output child_evm ! i)
              \<and> (\<forall>j < length (extended_memory evm w_in isz w_out osz).
                    j < Uint w_out
                    \<or> Uint w_out + min (unat osz) (length (output child_evm)) \<le> j \<longrightarrow>
                    memory r ! j = extended_memory evm w_in isz w_out osz ! j)
              \<and> unat (gas_left r) = unat (charged_gas evm c) + unat (gas_left child_evm)
              \<and> env r = env')
        \<and> (\<forall>child_evm env'.
              process_message m (env e) = Inr (child_evm, env')
              \<and> length (output child_evm) < 2 ^ 256
              \<and> unat (charged_gas evm c) + unat (gas_left child_evm) < 2 ^ 256 \<longrightarrow>
              (\<exists>r. call G process_message evm = Inr r))"
  proof (intro exI conjI)
    show "call_steps G evm = Inr (Invoke e m k)"
      by (rule steps)
    show "gas m = message_call_gas_fee c"
      by (rule gm)
    show "\<forall>child_evm env' r.
              process_message m (env e) = Inr (child_evm, env')
              \<and> call G process_message evm = Inr r \<longrightarrow>
                stack r = 1 # rest
              \<and> memory r =
                  memory_write (extended_memory evm w_in isz w_out osz) (Uint w_out)
                    (take (min (unat osz) (length (output child_evm))) (output child_evm))
              \<and> length (memory r) = length (extended_memory evm w_in isz w_out osz)
              \<and> (\<forall>i < min (unat osz) (length (output child_evm)).
                    memory r ! (Uint w_out + i) = output child_evm ! i)
              \<and> (\<forall>j < length (extended_memory evm w_in isz w_out osz).
                    j < Uint w_out
                    \<or> Uint w_out + min (unat osz) (length (output child_evm)) \<le> j \<longrightarrow>
                    memory r ! j = extended_memory evm w_in isz w_out osz ! j)
              \<and> unat (gas_left r) = unat (charged_gas evm c) + unat (gas_left child_evm)
              \<and> env r = env'"
    proof (intro allI impI)
      fix child_evm env' r
      assume "process_message m (env e) = Inr (child_evm, env')
                \<and> call G process_message evm = Inr r"
      then have "k (child_evm, env') = Inr r"
        by (clarsimp simp: run)
      with merge_child(1) [where k = k and child_evm = child_evm and env' = env' and r = r,
          OF k extended_memory_covers(3)]
      show "stack r = 1 # rest
              \<and> memory r =
                  memory_write (extended_memory evm w_in isz w_out osz) (Uint w_out)
                    (take (min (unat osz) (length (output child_evm))) (output child_evm))
              \<and> length (memory r) = length (extended_memory evm w_in isz w_out osz)
              \<and> (\<forall>i < min (unat osz) (length (output child_evm)).
                    memory r ! (Uint w_out + i) = output child_evm ! i)
              \<and> (\<forall>j < length (extended_memory evm w_in isz w_out osz).
                    j < Uint w_out
                    \<or> Uint w_out + min (unat osz) (length (output child_evm)) \<le> j \<longrightarrow>
                    memory r ! j = extended_memory evm w_in isz w_out osz ! j)
              \<and> unat (gas_left r) = unat (charged_gas evm c) + unat (gas_left child_evm)
              \<and> env r = env'"
        by blast
    qed
    show "\<forall>child_evm env'.
              process_message m (env e) = Inr (child_evm, env')
              \<and> length (output child_evm) < 2 ^ 256
              \<and> unat (charged_gas evm c) + unat (gas_left child_evm) < 2 ^ 256 \<longrightarrow>
              (\<exists>r. call G process_message evm = Inr r)"
    proof (intro allI impI)
      fix child_evm env'
      assume "process_message m (env e) = Inr (child_evm, env')
                \<and> length (output child_evm) < 2 ^ 256
                \<and> unat (charged_gas evm c) + unat (gas_left child_evm) < 2 ^ 256"
      with merge_child(2) [where k = k and child_evm = child_evm and env' = env',
          OF k extended_memory_covers(3)]
      show "\<exists>r. call G process_message evm = Inr r"
        by (clarsimp simp: run)
    qed
  qed
next
  assume st: "stack evm = gas_w # to_w # value_w # w_in # isz # w_out # osz # rest"
    and ch: "charged G evm (current_target (message evm)) gas_w value_w w_in isz w_out osz c'"
    and bal: "\<not> balance (get_account (state (env evm)) (current_target (message evm))) < value_w"
    and dep: "depth (message evm) + 1 \<le> STACK_DEPTH_LIMIT G"
  from callcode_steps_invoke [OF st ch bal dep] obtain e m k
    where steps: "callcode_steps G evm = Inr (Invoke e m k)"
      and gm: "gas m = message_call_gas_fee c'"
      and k: "\<And>child_evm env'.
               k (child_evm, env') =
                 bindE (U256 (length (output child_evm))) (\<lambda>output_length.
                 bindE (u256_add (charged_gas evm c') (gas_left child_evm)) (\<lambda>g4.
                 Inr (evm\<lparr>stack := 1 # rest,
                          memory :=
                            memory_write (extended_memory evm w_in isz w_out osz) (Uint w_out)
                              (take (unat (min osz output_length)) (output child_evm)),
                          gas_left := g4,
                          env := env'\<rparr>)))"
    by force
  have run: "callcode G process_message evm = bindE (process_message m (env e)) k"
    by (simp add: callcode_def steps)
  show "\<exists>e m k.
          callcode_steps G evm = Inr (Invoke e m k)
        \<and> gas m = message_call_gas_fee c'
        \<and> (\<forall>child_evm env' r.
              process_message m (env e) = Inr (child_evm, env')
              \<and> callcode G process_message evm = Inr r \<longrightarrow>
                stack r = 1 # rest
              \<and> memory r =
                  memory_write (extended_memory evm w_in isz w_out osz) (Uint w_out)
                    (take (min (unat osz) (length (output child_evm))) (output child_evm))
              \<and> length (memory r) = length (extended_memory evm w_in isz w_out osz)
              \<and> (\<forall>i < min (unat osz) (length (output child_evm)).
                    memory r ! (Uint w_out + i) = output child_evm ! i)
              \<and> (\<forall>j < length (extended_memory evm w_in isz w_out osz).
                    j < Uint w_out
                    \<or> Uint w_out + min (unat osz) (length (output child_evm)) \<le> j \<longrightarrow>
                    memory r ! j = extended_memory evm w_in isz w_out osz ! j)
              \<and> unat (gas_left r) = unat (charged_gas evm c') + unat (gas_left child_evm)
              \<and> env r = env')
        \<and> (\<forall>child_evm env'.
              process_message m (env e) = Inr (child_evm, env')
              \<and> length (output child_evm) < 2 ^ 256
              \<and> unat (charged_gas evm c') + unat (gas_left child_evm) < 2 ^ 256 \<longrightarrow>
              (\<exists>r. callcode G process_message evm = Inr r))"
  proof (intro exI conjI)
    show "callcode_steps G evm = Inr (Invoke e m k)"
      by (rule steps)
    show "gas m = message_call_gas_fee c'"
      by (rule gm)
    show "\<forall>child_evm env' r.
              process_message m (env e) = Inr (child_evm, env')
              \<and> callcode G process_message evm = Inr r \<longrightarrow>
                stack r = 1 # rest
              \<and> memory r =
                  memory_write (extended_memory evm w_in isz w_out osz) (Uint w_out)
                    (take (min (unat osz) (length (output child_evm))) (output child_evm))
              \<and> length (memory r) = length (extended_memory evm w_in isz w_out osz)
              \<and> (\<forall>i < min (unat osz) (length (output child_evm)).
                    memory r ! (Uint w_out + i) = output child_evm ! i)
              \<and> (\<forall>j < length (extended_memory evm w_in isz w_out osz).
                    j < Uint w_out
                    \<or> Uint w_out + min (unat osz) (length (output child_evm)) \<le> j \<longrightarrow>
                    memory r ! j = extended_memory evm w_in isz w_out osz ! j)
              \<and> unat (gas_left r) = unat (charged_gas evm c') + unat (gas_left child_evm)
              \<and> env r = env'"
    proof (intro allI impI)
      fix child_evm env' r
      assume "process_message m (env e) = Inr (child_evm, env')
                \<and> callcode G process_message evm = Inr r"
      then have "k (child_evm, env') = Inr r"
        by (clarsimp simp: run)
      with merge_child(1) [where k = k and child_evm = child_evm and env' = env' and r = r,
          OF k extended_memory_covers(3)]
      show "stack r = 1 # rest
              \<and> memory r =
                  memory_write (extended_memory evm w_in isz w_out osz) (Uint w_out)
                    (take (min (unat osz) (length (output child_evm))) (output child_evm))
              \<and> length (memory r) = length (extended_memory evm w_in isz w_out osz)
              \<and> (\<forall>i < min (unat osz) (length (output child_evm)).
                    memory r ! (Uint w_out + i) = output child_evm ! i)
              \<and> (\<forall>j < length (extended_memory evm w_in isz w_out osz).
                    j < Uint w_out
                    \<or> Uint w_out + min (unat osz) (length (output child_evm)) \<le> j \<longrightarrow>
                    memory r ! j = extended_memory evm w_in isz w_out osz ! j)
              \<and> unat (gas_left r) = unat (charged_gas evm c') + unat (gas_left child_evm)
              \<and> env r = env'"
        by blast
    qed
    show "\<forall>child_evm env'.
              process_message m (env e) = Inr (child_evm, env')
              \<and> length (output child_evm) < 2 ^ 256
              \<and> unat (charged_gas evm c') + unat (gas_left child_evm) < 2 ^ 256 \<longrightarrow>
              (\<exists>r. callcode G process_message evm = Inr r)"
    proof (intro allI impI)
      fix child_evm env'
      assume "process_message m (env e) = Inr (child_evm, env')
                \<and> length (output child_evm) < 2 ^ 256
                \<and> unat (charged_gas evm c') + unat (gas_left child_evm) < 2 ^ 256"
      with merge_child(2) [where k = k and child_evm = child_evm and env' = env',
          OF k extended_memory_covers(3)]
      show "\<exists>r. callcode G process_message evm = Inr r"
        by (clarsimp simp: run)
    qed
  qed
qed

text \<open>
  A call with 5000 gas and an output region of 2 bytes at offset 30, to an
  interpreter that returns three bytes of output and 4900 gas: 1 is pushed, the
  last two bytes of memory are the first two of the output, and the frame is left
  with 100000 - 5040 + 4900 gas.
\<close>

theorem child_frame_merged_witness:
  "(\<exists>r. call sample_config returning_interpreter (sample_frame 0 [5000, 3, 0, 0, 4, 30, 2, 77])
          = Inr r
      \<and> stack r = [1, 77]
      \<and> memory r = take 30 sample_memory @ [170, 187]
      \<and> unat (gas_left r) = 99860)
   \<and> (\<exists>r. callcode sample_config returning_interpreter
            (sample_frame 0 [5000, 3, 0, 0, 4, 30, 2, 77]) = Inr r
      \<and> stack r = [1, 77]
      \<and> memory r = take 30 sample_memory @ [170, 187]
      \<and> unat (gas_left r) = 99860)"
proof -
  let ?F = "sample_frame 0 [5000, 3, 0, 0, 4, 30, 2, 77]"
  let ?c = "\<lparr>call_gas_fee = 5040, message_call_gas_fee = 5000,
             gas_input_memory = 0, gas_output_memory = 0\<rparr>"
  have mem: "extended_memory ?F 0 4 30 2 = sample_memory"
    and g: "unat (charged_gas ?F ?c) = 94960"
    and w: "memory_write sample_memory (Uint 30) [170, 187] = take 30 sample_memory @ [170, 187]"
    by (simp_all add: sample_eval memory_write_def)
  have pa: "stack ?F = 5000 # 3 # 0 # 0 # 4 # 30 # 2 # [77]
      \<and> charged sample_config ?F (to_address 3) 5000 0 0 4 30 2 ?c
      \<and> \<not> balance (get_account (state (env ?F)) (current_target (message ?F))) < 0
      \<and> depth (message ?F) + 1 \<le> STACK_DEPTH_LIMIT sample_config"
    by (simp add: sample_eval)
  have a: "\<exists>r. call sample_config returning_interpreter ?F = Inr r
      \<and> stack r = [1, 77]
      \<and> memory r = take 30 sample_memory @ [170, 187]
      \<and> unat (gas_left r) = 99860"
  proof -
    from child_frame_merged [where evm = ?F and G = sample_config and gas_w = 5000
        and to_w = 3 and value_w = 0 and w_in = 0 and isz = 4 and w_out = 30 and osz = 2
        and rest = "[77]" and c = ?c and process_message = returning_interpreter,
        THEN conjunct1, THEN mp, OF pa]
    obtain e :: evm and m k where gm: "gas m = message_call_gas_fee ?c"
      and merged: "\<forall>child_evm env' r.
              returning_interpreter m (env e) = Inr (child_evm, env')
              \<and> call sample_config returning_interpreter ?F = Inr r \<longrightarrow>
                stack r = 1 # [77]
              \<and> memory r =
                  memory_write (extended_memory ?F 0 4 30 2) (Uint 30)
                    (take (min (unat (2 :: u256)) (length (output child_evm))) (output child_evm))
              \<and> length (memory r) = length (extended_memory ?F 0 4 30 2)
              \<and> (\<forall>i < min (unat (2 :: u256)) (length (output child_evm)).
                    memory r ! (Uint 30 + i) = output child_evm ! i)
              \<and> (\<forall>j < length (extended_memory ?F 0 4 30 2).
                    j < Uint 30
                    \<or> Uint 30 + min (unat (2 :: u256)) (length (output child_evm)) \<le> j \<longrightarrow>
                    memory r ! j = extended_memory ?F 0 4 30 2 ! j)
              \<and> unat (gas_left r) = unat (charged_gas ?F ?c) + unat (gas_left child_evm)
              \<and> env r = env'"
      and returns: "\<forall>child_evm env'.
              returning_interpreter m (env e) = Inr (child_evm, env')
              \<and> length (output child_evm) < 2 ^ 256
              \<and> unat (charged_gas ?F ?c) + unat (gas_left child_evm) < 2 ^ 256 \<longrightarrow>
              (\<exists>r. call sample_config returning_interpreter ?F = Inr r)"
      by blast
    let ?child = "\<lparr>pc = 0, stack = [], memory = [], gas_left = gas m - 100, env = env e,
                   running = False, message = m, output = [170, 187, 204]\<rparr>"
    have child: "returning_interpreter m (env e) = Inr (?child, env e)"
      by (simp add: returning_interpreter_def)
    have cg: "unat (gas_left ?child) = 4900"
      by (simp add: gm)
    from returns child g cg obtain r
      where r: "call sample_config returning_interpreter ?F = Inr r"
      by fastforce
    from merged child r have "stack r = 1 # [77]"
      and "memory r = memory_write (extended_memory ?F 0 4 30 2) (Uint 30)
                    (take (min (unat (2 :: u256)) (length (output ?child))) (output ?child))"
      and "unat (gas_left r) = unat (charged_gas ?F ?c) + unat (gas_left ?child)"
      by blast+
    then have "stack r = [1, 77] \<and> memory r = take 30 sample_memory @ [170, 187]
      \<and> unat (gas_left r) = 99860"
      by (simp add: mem g gm w)
    with r show ?thesis
      by blast
  qed
  have pb: "stack ?F = 5000 # 3 # 0 # 0 # 4 # 30 # 2 # [77]
      \<and> charged sample_config ?F (current_target (message ?F)) 5000 0 0 4 30 2 ?c
      \<and> \<not> balance (get_account (state (env ?F)) (current_target (message ?F))) < 0
      \<and> depth (message ?F) + 1 \<le> STACK_DEPTH_LIMIT sample_config"
    by (simp add: sample_eval)
  have b: "\<exists>r. callcode sample_config returning_interpreter ?F = Inr r
      \<and> stack r = [1, 77]
      \<and> memory r = take 30 sample_memory @ [170, 187]
      \<and> unat (gas_left r) = 99860"
  proof -
    from child_frame_merged [where evm = ?F and G = sample_config and gas_w = 5000
        and to_w = 3 and value_w = 0 and w_in = 0 and isz = 4 and w_out = 30 and osz = 2
        and rest = "[77]" and c' = ?c and process_message = returning_interpreter,
        THEN conjunct2, THEN mp, OF pb]
    obtain e :: evm and m k where gm: "gas m = message_call_gas_fee ?c"
      and merged: "\<forall>child_evm env' r.
              returning_interpreter m (env e) = Inr (child_evm, env')
              \<and> callcode sample_config returning_interpreter ?F = Inr r \<longrightarrow>
                stack r = 1 # [77]
              \<and> memory r =
                  memory_write (extended_memory ?F 0 4 30 2) (Uint 30)
                    (take (min (unat (2 :: u256)) (length (output child_evm))) (output child_evm))
              \<and> length (memory r) = length (extended_memory ?F 0 4 30 2)
              \<and> (\<forall>i < min (unat (2 :: u256)) (length (output child_evm)).
                    memory r ! (Uint 30 + i) = output child_evm ! i)
              \<and> (\<forall>j < length (extended_memory ?F 0 4 30 2).
                    j < Uint 30
                    \<or> Uint 30 + min (unat (2 :: u256)) (length (output child_evm)) \<le> j \<longrightarrow>
                    memory r ! j = extended_memory ?F 0 4 30 2 ! j)
              \<and> unat (gas_left r) = unat (charged_gas ?F ?c) + unat (gas_left child_evm)
              \<and> env r = env'"
      and returns: "\<forall>child_evm env'.
              returning_interpreter m (env e) = Inr (child_evm, env')
              \<and> length (output child_evm) < 2 ^ 256
              \<and> unat (charged_gas ?F ?c) + unat (gas_left child_evm) < 2 ^ 256 \<longrightarrow>
              (\<exists>r. callcode sample_config returning_interpreter ?F = Inr r)"
      by blast
    let ?child = "\<lparr>pc = 0, stack = [], memory = [], gas_left = gas m - 100, env = env e,
                   running = False, message = m, output = [170, 187, 204]\<rparr>"
    have child: "returning_interpreter m (env e) = Inr (?child, env e)"
      by (simp add: returning_interpreter_def)
    have cg: "unat (gas_left ?child) = 4900"
      by (simp add: gm)
    from returns child g cg obtain r
      where r: "callcode sample_config returning_interpreter ?F = Inr r"
      by fastforce
    from merged child r have "stack r = 1 # [77]"
      and "memory r = memory_write (extended_memory ?F 0 4 30 2) (Uint 30)
                    (take (min (unat (2 :: u256)) (length (output ?child))) (output ?child))"
      and "unat (gas_left r) = unat (charged_gas ?F ?c) + unat (gas_left ?child)"
      by blast+
    then have "stack r = [1, 77] \<and> memory r = take 30 sample_memory @ [170, 187]
      \<and> unat (gas_left r) = 99860"
      by (simp add: mem g gm w)
    with r show ?thesis
      by blast
  qed
  from a b show ?thesis
    by blast
qed

section \<open>Only RETURN touches the output buffer and the running flag\<close>

lemma create_steps_frame:
  assumes "create_steps G evm = Inr p"
  shows "(case p of
            Done r \<Rightarrow> running r = running evm \<and> output r = output evm
          | Invoke e m k \<Rightarrow>
              (\<forall>c r. k c = Inr r \<longrightarrow> running r = running evm \<and> output r = output evm))"
  using assms unfolding create_steps_def
  by (auto simp: bindE_eq_Inr Let_def split: if_splits prod.splits)

lemma call_steps_frame:
  assumes "call_steps G evm = Inr p"
  shows "(case p of
            Done r \<Rightarrow> running r = running evm \<and> output r = output evm
          | Invoke e m k \<Rightarrow>
              (\<forall>c r. k c = Inr r \<longrightarrow> running r = running evm \<and> output r = output evm))"
  using assms unfolding call_steps_def
  by (auto simp: bindE_eq_Inr Let_def split: if_splits prod.splits)

lemma callcode_steps_frame:
  assumes "callcode_steps G evm = Inr p"
  shows "(case p of
            Done r \<Rightarrow> running r = running evm \<and> output r = output evm
          | Invoke e m k \<Rightarrow>
              (\<forall>c r. k c = Inr r \<longrightarrow> running r = running evm \<and> output r = output evm))"
  using assms unfolding callcode_steps_def
  by (auto simp: bindE_eq_Inr Let_def split: if_splits prod.splits)

lemma resume_frame:
  assumes "resume process p = Inr r"
    and "(case p of
            Done r \<Rightarrow> running r = running evm \<and> output r = output evm
          | Invoke e m k \<Rightarrow>
              (\<forall>c r. k c = Inr r \<longrightarrow> running r = running evm \<and> output r = output evm))"
  shows "running r = running evm \<and> output r = output evm"
  using assms by (cases p) (auto simp: bindE_eq_Inr)

text \<open>
  Claim C9. On every path on which they return, CREATE, CALL and CALLCODE leave
  the running flag and the output buffer of the parent frame unchanged; RETURN,
  when it returns, has set the running flag to false and the output buffer to the
  bytes it read from memory.
\<close>

theorem frame_effect:
  "(create G process evm = Inr r \<longrightarrow> running r = running evm \<and> output r = output evm)
   \<and> (call G process evm = Inr r \<longrightarrow> running r = running evm \<and> output r = output evm)
   \<and> (callcode G process evm = Inr r \<longrightarrow> running r = running evm \<and> output r = output evm)
   \<and> (return_op G evm = Inr r \<longrightarrow>
        \<not> running r
        \<and> (\<exists>w_start memory_size rest.
              stack evm = w_start # memory_size # rest
            \<and> output r = memory_read_bytes (memory r) (Uint w_start) memory_size))"
proof -
  have a: "running r = running evm \<and> output r = output evm"
    if "create G process evm = Inr r"
  proof -
    from that obtain p where "create_steps G evm = Inr p" and "resume process p = Inr r"
      by (auto simp: create_def bindE_eq_Inr)
    then show ?thesis
      using resume_frame create_steps_frame by blast
  qed
  have b: "running r = running evm \<and> output r = output evm"
    if "call G process evm = Inr r"
  proof -
    from that obtain p where "call_steps G evm = Inr p" and "resume process p = Inr r"
      by (auto simp: call_def bindE_eq_Inr)
    then show ?thesis
      using resume_frame call_steps_frame by blast
  qed
  have c: "running r = running evm \<and> output r = output evm"
    if "callcode G process evm = Inr r"
  proof -
    from that obtain p where "callcode_steps G evm = Inr p" and "resume process p = Inr r"
      by (auto simp: callcode_def bindE_eq_Inr)
    then show ?thesis
      using resume_frame callcode_steps_frame by blast
  qed
  have d: "\<not> running r
        \<and> (\<exists>w_start memory_size rest.
              stack evm = w_start # memory_size # rest
            \<and> output r = memory_read_bytes (memory r) (Uint w_start) memory_size)"
    if "return_op G evm = Inr r"
    using that unfolding return_op_def
    by (auto simp: bindE_eq_Inr Let_def pop_def split: prod.splits list.splits)
  from a b c d show ?thesis
    by blast
qed

text \<open>
  On the running sample frame with its empty output buffer, CREATE, CALL and
  CALLCODE return with the interpreter that returns a child frame holding three bytes
  of output: the parent is still running and its output still empty. RETURN of
  three bytes at offset 1 halts it with these bytes.
\<close>

theorem frame_effect_witness:
  "(\<exists>r. create sample_config returning_interpreter (sample_frame 0 [10, 0, 4, 99]) = Inr r
        \<and> running r \<and> output r = [])
   \<and> (\<exists>r. call sample_config returning_interpreter
             (sample_frame 0 [5000, 3, 0, 0, 4, 30, 2, 77]) = Inr r
        \<and> running r \<and> output r = [])
   \<and> (\<exists>r. callcode sample_config returning_interpreter
             (sample_frame 0 [5000, 3, 0, 0, 4, 30, 2, 77]) = Inr r
        \<and> running r \<and> output r = [])
   \<and> (\<exists>r. return_op sample_config (sample_frame 0 [1, 3, 99]) = Inr r
        \<and> \<not> running r \<and> output r = [2, 3, 4])"
proof -
  have run: "running (sample_frame d s)" and out: "output (sample_frame d s) = []" for d s
    by (simp_all add: sample_defs)
  from sample_create_runs obtain r1
    where a: "create sample_config returning_interpreter (sample_frame 0 [10, 0, 4, 99]) = Inr r1"
    by blast
  from sample_call_runs obtain r2 r3
    where b: "call sample_config returning_interpreter
                (sample_frame 0 [5000, 3, 0, 0, 4, 30, 2, 77]) = Inr r2"
      and c: "callcode sample_config returning_interpreter
                (sample_frame 0 [5000, 3, 0, 0, 4, 30, 2, 77]) = Inr r3"
    by blast
  have d: "return_op sample_config (sample_frame 0 [1, 3, 99]) =
      Inr ((sample_frame 0 [1, 3, 99])
             \<lparr>stack := [99], output := [2, 3, 4], running := False\<rparr>)"
    by (simp add: return_op_def memory_read_bytes_def subtract_gas_def GAS_ZERO_def sample_eval)
  from frame_effect [THEN conjunct1, THEN mp, OF a]
    frame_effect [THEN conjunct2, THEN conjunct1, THEN mp, OF b]
    frame_effect [THEN conjunct2, THEN conjunct2, THEN conjunct1, THEN mp, OF c]
    frame_effect [THEN conjunct2, THEN conjunct2, THEN conjunct2, THEN mp, OF d]
  show ?thesis
    unfolding a b c d by (simp add: run out)
qed

section \<open>CALLCODE is CALL on the own account with foreign code\<close>

lemma bindE_assoc: "bindE (bindE m f) g = bindE m (\<lambda>x. bindE (f x) g)"
  by (cases m) simp_all

lemma bindE_if:
  "bindE (if c then a else b) g = (if c then bindE a g else bindE b g)"
  by simp

lemma callcode_is_call_on_own_account:
  assumes st: "stack evm = gas_w # address_w # rest"
  shows "callcode G process_message evm =
           call G
             (\<lambda>m. process_message
                (m\<lparr>code := account.code
                              (get_account (state (env evm)) (to_address address_w))\<rparr>))
             (evm\<lparr>stack := gas_w # U256_from_be_bytes (current_target (message evm)) # rest\<rparr>)"
  unfolding callcode_def call_def callcode_steps_def call_steps_def
  by (simp add: st Let_def bindE_assoc bindE_if split_def push_def cong: if_cong)

lemma short_stack_underflow:
  assumes "length (stack evm) < 2"
  shows "callcode G process_message evm = Inl StackUnderflowError"
    and "call G process_message evm = Inl StackUnderflowError"
proof -
  from assms consider "stack evm = []" | x where "stack evm = [x]"
    by (cases "stack evm"; cases "tl (stack evm)") auto
  then show "callcode G process_message evm = Inl StackUnderflowError"
    by cases (simp_all add: callcode_def callcode_steps_def)
  from assms consider "stack evm = []" | x where "stack evm = [x]"
    by (cases "stack evm"; cases "tl (stack evm)") auto
  then show "call G process_message evm = Inl StackUnderflowError"
    by cases (simp_all add: call_def call_steps_def)
qed

text \<open>
  Claim C7, as amended. For every starting frame state, CALLCODE behaves as CALL
  does on the same frame with the popped address replaced by the parent's own
  current account (same pop order, gas accounting, memory charging and extension,
  balance and depth checks, result merging; the cost of the call is computed for
  the parent's own account, and the child message's target and current target are
  that account), except that the executed code is the code of the popped code
  address. With fewer than two words on the stack both raise a stack underflow.
\<close>

theorem callcode_as_call_on_own_account:
  "(stack evm = gas_w # address_w # rest \<longrightarrow>
      callcode G process_message evm =
        call G
          (\<lambda>m. process_message
             (m\<lparr>code := account.code
                           (get_account (state (env evm)) (to_address address_w))\<rparr>))
          (evm\<lparr>stack := gas_w # U256_from_be_bytes (current_target (message evm)) # rest\<rparr>))
   \<and> (length (stack evm) < 2 \<longrightarrow>
        callcode G process_message evm = Inl StackUnderflowError
      \<and> call G process_message' evm = Inl StackUnderflowError)"
  using callcode_is_call_on_own_account short_stack_underflow by blast

text \<open>
  On the sample frame, which runs as account 2, CALLCODE with the code address 9
  (no account, empty code) is CALL to account 2 with the empty code; with one word
  on the stack both underflow.
\<close>

theorem callcode_as_call_on_own_account_witness:
  "stack (sample_frame 0 [5000, 9, 0, 0, 4, 30, 2, 77]) = 5000 # 9 # [0, 0, 4, 30, 2, 77]
   \<and> callcode sample_config returning_interpreter (sample_frame 0 [5000, 9, 0, 0, 4, 30, 2, 77])
     = call sample_config (\<lambda>m. returning_interpreter (m\<lparr>code := []\<rparr>))
         (sample_frame 0 [5000, 2, 0, 0, 4, 30, 2, 77])
   \<and> callcode sample_config returning_interpreter (sample_frame 0 [5000])
     = Inl StackUnderflowError
   \<and> call sample_config returning_interpreter (sample_frame 0 [5000])
     = Inl StackUnderflowError"
proof -
  have st: "stack (sample_frame 0 [5000, 9, 0, 0, 4, 30, 2, 77]) = 5000 # 9 # [0, 0, 4, 30, 2, 77]"
    and short: "length (stack (sample_frame 0 [5000])) < 2"
    by (simp_all add: sample_frame_def)
  from callcode_as_call_on_own_account [THEN conjunct1, THEN mp, OF st,
      of sample_config returning_interpreter]
    callcode_as_call_on_own_account [THEN conjunct2, THEN mp, OF short,
      of sample_config returning_interpreter returning_interpreter]
  show ?thesis
    by (simp add: sample_frame_def sample_evm_def sample_message_def sample_state_def
          get_account_def EMPTY_ACCOUNT_def U256_from_be_bytes_def to_address_def)
qed

text \<open>
  The claim as stated makes CALLCODE differ from CALL only in the child message's
  target and current target (\<open>callcode_spec\<close>). It fails where the cost of the call
  depends on the address: for the code address 9, which has no account, CALL pays
  the new-account surcharge of 25000 and CALLCODE, whose cost is computed for the
  own account, does not.
\<close>

theorem callcode_counterexample:
  "callcode sample_config returning_interpreter (sample_frame 0 [5000, 9, 0, 0, 4, 30, 2, 77])
     = Inr ((sample_frame 0 [5000, 9, 0, 0, 4, 30, 2, 77])
              \<lparr>stack := [1, 77], memory := take 30 sample_memory @ [170, 187],
               gas_left := 99860\<rparr>)
   \<and> callcode_spec sample_config returning_interpreter
       (sample_frame 0 [5000, 9, 0, 0, 4, 30, 2, 77])
     = Inr ((sample_frame 0 [5000, 9, 0, 0, 4, 30, 2, 77])
              \<lparr>stack := [1, 77], memory := take 30 sample_memory @ [170, 187],
               gas_left := 74860\<rparr>)
   \<and> callcode sample_config returning_interpreter (sample_frame 0 [5000, 9, 0, 0, 4, 30, 2, 77])
     \<noteq> callcode_spec sample_config returning_interpreter
         (sample_frame 0 [5000, 9, 0, 0, 4, 30, 2, 77])"
proof -
  have "gas_left ((sample_frame 0 [5000, 9, 0, 0, 4, 30, 2, 77])
              \<lparr>stack := [1, 77], memory := take 30 sample_memory @ [170, 187],
               gas_left := 99860\<rparr>)
        \<noteq> gas_left ((sample_frame 0 [5000, 9, 0, 0, 4, 30, 2, 77])
              \<lparr>stack := [1, 77], memory := take 30 sample_memory @ [170, 187],
               gas_left := 74860\<rparr>)"
    by simp
  then have "(sample_frame 0 [5000, 9, 0, 0, 4, 30, 2, 77])
              \<lparr>stack := [1, 77], memory := take 30 sample_memory @ [170, 187],
               gas_left := 99860\<rparr>
        \<noteq> (sample_frame 0 [5000, 9, 0, 0, 4, 30, 2, 77])
              \<lparr>stack := [1, 77], memory := take 30 sample_memory @ [170, 187],
               gas_left := 74860\<rparr>"
    by metis
  then show ?thesis
    by (simp add: sample_callcode_unknown_address)
qed

end
